theory Spec2Isabelle
  imports Main "HOL-Library.Word"
begin

section \<open>The native layer\<close>

text \<open>
  The driver is a cgo binding: every operation ends in a call of the C library
  \<^verbatim>\<open>libsql\<close>, whose code is not part of the repository. The model keeps the library
  opaque. A run of the driver is a list of the native calls it has made so far, and the
  answers of the library are given by an arbitrary function of that list, so that every
  theorem holds for every behaviour of the library.
\<close>

text \<open>A C pointer: \<open>None\<close> is the nil pointer, \<open>Some a\<close> the address \<open>a\<close>.\<close>

type_synonym ptr = "nat option"

text \<open>
  The structs \<^verbatim>\<open>libsql_database_t\<close>, \<^verbatim>\<open>libsql_connection_t\<close>,
  \<^verbatim>\<open>libsql_transaction_t\<close>, \<^verbatim>\<open>libsql_statement_t\<close> and \<^verbatim>\<open>libsql_rows_t\<close>
  have the same two fields in the Go code (\<^verbatim>\<open>db.err\<close>, \<^verbatim>\<open>c.inner.inner\<close>): an error
  pointer and the opaque resource.
\<close>

record handle_t =
  err :: ptr
  inner :: ptr

type_synonym libsql_database_t = handle_t
type_synonym libsql_connection_t = handle_t
type_synonym libsql_transaction_t = handle_t
type_synonym libsql_statement_t = handle_t
type_synonym libsql_rows_t = handle_t

text \<open>
  \<^verbatim>\<open>libsql_database_desc_t\<close> as \<^verbatim>\<open>NewConnector\<close> fills it. A \<^verbatim>\<open>char *\<close> is
  \<open>None\<close> (nil) or the bytes of the C string.
\<close>

record libsql_database_desc_t =
  desc_path :: "string option"
  desc_url :: "string option"
  desc_auth_token :: "string option"
  desc_encryption_key :: "string option"
  desc_not_read_your_writes :: bool
  desc_webpki :: bool
  desc_sync_interval :: "64 word"

text \<open>
  \<^verbatim>\<open>libsql_value_t\<close>, by the constructor functions of the library that \<^verbatim>\<open>Bind\<close>
  calls. Integers are \<^verbatim>\<open>int64_t\<close>, reals are the 64 bits of a \<^verbatim>\<open>double\<close>, text and
  blob carry the buffer and the length passed with it. \<open>libsql_other_type\<close> stands for
  a value whose type tag is none of the five known ones.
\<close>

datatype libsql_value_t =
    libsql_integer "64 word"
  | libsql_real "64 word"
  | libsql_text string nat
  | libsql_blob "8 word list" nat
  | libsql_null
  | libsql_other_type nat

datatype native_call =
    libsql_database_init libsql_database_desc_t
  | libsql_database_sync libsql_database_t
  | libsql_database_deinit libsql_database_t
  | libsql_database_connect libsql_database_t
  | libsql_connection_batch libsql_connection_t "string option"
  | libsql_transaction_batch libsql_transaction_t "string option"
  | libsql_connection_transaction libsql_connection_t
  | libsql_connection_deinit libsql_connection_t
  | libsql_connection_prepare libsql_connection_t string
  | libsql_transaction_commit libsql_transaction_t
  | libsql_transaction_rollback libsql_transaction_t
  | libsql_statement_deinit libsql_statement_t
  | libsql_statement_bind_value libsql_statement_t libsql_value_t
  | libsql_statement_bind_named libsql_statement_t string libsql_value_t
  | libsql_statement_execute libsql_statement_t
  | libsql_statement_query libsql_statement_t
  | libsql_rows_deinit libsql_rows_t
  | libsql_slice_deinit libsql_value_t
  | libsql_error_message ptr
  | libsql_error_deinit ptr

text \<open>The calls made so far, oldest first.\<close>

type_synonym world = "native_call list"

text \<open>
  What the library answers. Each answer is a function of the calls made so far, the
  call being answered last: \<open>ret_handle\<close> for the calls that return a handle struct,
  \<open>ret_err\<close> for the \<^verbatim>\<open>err\<close> field of \<^verbatim>\<open>libsql_bind_t\<close>, \<^verbatim>\<open>libsql_batch_t\<close> and
  \<^verbatim>\<open>libsql_execute_t\<close>, \<open>ret_rows_changed\<close> for the \<^verbatim>\<open>rows_changed\<close> field of
  \<^verbatim>\<open>libsql_execute_t\<close>, \<open>ret_message\<close> for \<^verbatim>\<open>libsql_error_message\<close>.
\<close>

record native =
  ret_handle :: "world \<Rightarrow> handle_t"
  ret_err :: "world \<Rightarrow> ptr"
  ret_rows_changed :: "world \<Rightarrow> 64 word"
  ret_message :: "world \<Rightarrow> string"

section \<open>Errors\<close>

text \<open>
  A Go \<^verbatim>\<open>error\<close>: the value of \<^verbatim>\<open>errors.New\<close> or \<^verbatim>\<open>fmt.Errorf\<close> with its message,
  or the value of \<^verbatim>\<open>errors.Join\<close> with the errors it wraps. A nil error is \<open>None\<close>
  of \<open>error option\<close>.
\<close>

datatype error =
    errorString string
  | joinError "error list"

text \<open>
  \<^verbatim>\<open>goErr\<close> reads the message of the native error, and its deferred call releases the
  native error after that.
\<close>

definition goErr :: "native \<Rightarrow> ptr \<Rightarrow> world \<Rightarrow> error \<times> world" where
  "goErr N e w =
     (let w1 = w @ [libsql_error_message e]
      in (errorString (ret_message N w1), w1 @ [libsql_error_deinit e]))"

text \<open>\<^verbatim>\<open>%d\<close> of \<^verbatim>\<open>fmt.Errorf\<close> on an integer: the decimal digits, with a minus sign.\<close>

fun utoa :: "nat \<Rightarrow> string" where
  "utoa n = (if n < 10 then [''0123456789'' ! n] else utoa (n div 10) @ [''0123456789'' ! (n mod 10)])"

declare utoa.simps [simp del]

definition itoa :: "int \<Rightarrow> string" where
  "itoa i = (if i < 0 then CHR ''-'' # utoa (nat (- i)) else utoa (nat i))"

section \<open>The wrappers and their Close\<close>

record Connector =
  db_inner :: libsql_database_t

record connection =
  conn_inner :: libsql_connection_t
  tx :: libsql_transaction_t
  in_transaction :: bool

record statement =
  stmt_inner :: libsql_statement_t

record Rows =
  rows_inner :: libsql_rows_t

text \<open>
  A method with a pointer receiver returns its result, the receiver as it leaves it and
  the calls made.
\<close>

definition Connector_Close :: "Connector \<Rightarrow> world \<Rightarrow> error option \<times> Connector \<times> world" where
  "Connector_Close c w =
     (if inner (db_inner c) = None then (None, c, w)
      else (None, c\<lparr>db_inner := (db_inner c)\<lparr>inner := None\<rparr>\<rparr>,
            w @ [libsql_database_deinit (db_inner c)]))"

definition connection_Close :: "connection \<Rightarrow> world \<Rightarrow> error option \<times> connection \<times> world" where
  "connection_Close conn w = (None, conn, w @ [libsql_connection_deinit (conn_inner conn)])"

definition statement_Close :: "statement \<Rightarrow> world \<Rightarrow> error option \<times> statement \<times> world" where
  "statement_Close stmt w =
     (if inner (stmt_inner stmt) = None then (None, stmt, w)
      else (None, stmt\<lparr>stmt_inner := (stmt_inner stmt)\<lparr>inner := None\<rparr>\<rparr>,
            w @ [libsql_statement_deinit (stmt_inner stmt)]))"

definition Rows_Close :: "Rows \<Rightarrow> world \<Rightarrow> error option \<times> Rows \<times> world" where
  "Rows_Close rows w = (None, rows, w @ [libsql_rows_deinit (rows_inner rows)])"

text \<open>
  A sequence of \<open>n\<close> calls of a Close method on the same wrapper: the errors returned,
  in order, the wrapper and the calls made at the end.
\<close>

fun closes :: "('h \<Rightarrow> world \<Rightarrow> error option \<times> 'h \<times> world) \<Rightarrow> nat \<Rightarrow> 'h \<Rightarrow> world
    \<Rightarrow> error option list \<times> 'h \<times> world" where
  "closes close 0 h w = ([], h, w)"
| "closes close (Suc n) h w =
     (case close h w of (e, h', w') \<Rightarrow>
        (case closes close n h' w' of (es, h'', w'') \<Rightarrow> (e # es, h'', w'')))"

section \<open>Transactions\<close>

text \<open>
  \<^verbatim>\<open>driver.TxOptions\<close>. \<^verbatim>\<open>sql.LevelDefault\<close> is isolation level 0. The context
  argument of \<^verbatim>\<open>BeginTx\<close> is not read by the code and is left out.
\<close>

record TxOptions =
  Isolation :: int
  ReadOnly :: bool

text \<open>
  \<^verbatim>\<open>BeginTx\<close> returns an error, or a \<^verbatim>\<open>transaction\<close> that is a pointer to the
  connection itself: success is \<open>None\<close>, and \<^verbatim>\<open>Commit\<close> and \<^verbatim>\<open>Rollback\<close> take the
  connection.
\<close>

definition BeginTx :: "native \<Rightarrow> connection \<Rightarrow> TxOptions \<Rightarrow> world
    \<Rightarrow> error option \<times> connection \<times> world" where
  "BeginTx N conn opts w =
     (if ReadOnly opts then
        (Some (errorString ''read only transactions are not supported''), conn, w)
      else if Isolation opts \<noteq> 0 then
        (Some (errorString (''isolation level '' @ itoa (Isolation opts) @ '' is not supported'')),
         conn, w)
      else
        (let conn1 = conn\<lparr>in_transaction := True\<rparr>;
             w1 = w @ [libsql_connection_transaction (conn_inner conn1)];
             conn2 = conn1\<lparr>tx := ret_handle N w1\<rparr>
         in if err (tx conn2) \<noteq> None then
              (case goErr N (err (tx conn2)) w1 of (e, w2) \<Rightarrow> (Some e, conn2, w2))
            else (None, conn2, w1)))"

definition Commit :: "connection \<Rightarrow> world \<Rightarrow> error option \<times> connection \<times> world" where
  "Commit conn w =
     (if \<not> in_transaction conn then (Some (errorString ''Not inside a transaction''), conn, w)
      else (None, conn\<lparr>tx := \<lparr>err = None, inner = None\<rparr>, in_transaction := False\<rparr>,
            w @ [libsql_transaction_commit (tx conn)]))"

definition Rollback :: "connection \<Rightarrow> world \<Rightarrow> error option \<times> connection \<times> world" where
  "Rollback conn w =
     (if \<not> in_transaction conn then (Some (errorString ''Not inside a transaction''), conn, w)
      else (None, conn\<lparr>tx := \<lparr>err = None, inner = None\<rparr>, in_transaction := False\<rparr>,
            w @ [libsql_transaction_rollback (tx conn)]))"

section \<open>Values and the standard library\<close>

text \<open>
  A \<^verbatim>\<open>time.Location\<close>: UTC, or a zone at a fixed offset, in seconds east of UTC, with
  its name. A \<^verbatim>\<open>time.Time\<close> is given by the date and the clock it shows in its own
  location, and that location.
\<close>

datatype Location = UTC | FixedZone string int

record Time =
  Year :: int
  Month :: int
  Day :: int
  Hour :: int
  Minute :: int
  Second :: int
  Nanosecond :: int
  Loc :: Location

text \<open>
  A \<^verbatim>\<open>driver.Value\<close> is an \<^verbatim>\<open>any\<close>: the dynamic types that the code switches on,
  and \<open>VOther\<close> (with the name of the type) for a value of any other dynamic type. A
  \<^verbatim>\<open>float64\<close> is its 64 bits, which the code only passes on.
\<close>

datatype Value =
    VBool bool
  | VInt64 "64 word"
  | VFloat64 "64 word"
  | VTime Time
  | VString string
  | VBytes "8 word list"
  | VNil
  | VOther string

record NamedValue =
  Name :: string
  Ordinal :: int
  Value :: Value

text \<open>
  \<^verbatim>\<open>url.URL\<close>, with the fields the code and the standard library's methods read.
\<close>

record URL =
  Scheme :: string
  Opaque :: string
  Host :: string
  RawQuery :: string

text \<open>
  The functions of Go's standard library that the code calls and that are not part of
  the repository. The model takes them as given: \<^verbatim>\<open>Time.Format\<close>,
  \<^verbatim>\<open>time.ParseInLocation\<close> (\<open>None\<close> when it returns an error, which the code does not
  read), \<^verbatim>\<open>strings.TrimSpace\<close>, \<^verbatim>\<open>url.Parse\<close>, \<^verbatim>\<open>URL.Hostname\<close> and
  \<^verbatim>\<open>URL.Query\<close>. A \<^verbatim>\<open>url.Values\<close> is a \<^verbatim>\<open>map[string][]string\<close>; reading a key
  that is absent gives the empty slice, so it is a function from keys to lists.
\<close>

type_synonym Values = "string \<Rightarrow> string list"

record stdlib =
  time_Format :: "Time \<Rightarrow> string \<Rightarrow> string"
  time_ParseInLocation :: "string \<Rightarrow> string \<Rightarrow> Location \<Rightarrow> Time option"
  strings_TrimSpace :: "string \<Rightarrow> string"
  url_Parse :: "string \<Rightarrow> error + URL"
  URL_Hostname :: "URL \<Rightarrow> string"
  URL_Query :: "URL \<Rightarrow> Values"

text \<open>\<^verbatim>\<open>Values.Get\<close>: the first value of the key, or the empty string.\<close>

definition Values_Get :: "Values \<Rightarrow> string \<Rightarrow> string" where
  "Values_Get v key = (case v key of [] \<Rightarrow> [] | x # _ \<Rightarrow> x)"

text \<open>The layout constant \<^verbatim>\<open>time.RFC3339Nano\<close>.\<close>

definition RFC3339Nano :: string where
  "RFC3339Nano = ''2006-01-02T15:04:05.999999999Z07:00''"

section \<open>Package time of the standard library\<close>

text \<open>
  \<^verbatim>\<open>time.ParseInLocation\<close> and \<^verbatim>\<open>Time.Format\<close> are code of Go's standard library,
  not of the repository. This section models them, after the library's
  \<^verbatim>\<open>time/format.go\<close>, for the layouts that are built from the elements the driver
  uses: \<^verbatim>\<open>2006\<close>, \<^verbatim>\<open>01\<close>, \<^verbatim>\<open>02\<close>, \<^verbatim>\<open>15\<close>, \<^verbatim>\<open>04\<close>, \<^verbatim>\<open>05\<close>, a fractional second
  of nines, \<^verbatim>\<open>-07:00\<close>, \<^verbatim>\<open>Z07:00\<close> and literal text. The other layout elements of the
  library (month and weekday names, twelve-hour clock, zone names and so on) are not
  modelled, and a layout that contains one is outside this model. The theorems about the
  driver take the library as a parameter; the model gives the concrete results.
\<close>

text \<open>
  The layout elements, under the library's names. A fractional second of nines carries
  the number of nines and the separator, a period or a comma.
\<close>

datatype std =
    stdLongYear | stdZeroMonth | stdZeroDay | stdHour | stdZeroMinute | stdZeroSecond
  | stdFracSecond9 nat char | stdNumColonTZ | stdISO8601ColonTZ | stdEnd

text \<open>\<^verbatim>\<open>isDigit(s, i)\<close>: index \<open>i\<close> is in range and holds a decimal digit.\<close>

definition isDigit :: "string \<Rightarrow> nat \<Rightarrow> bool" where
  "isDigit s i = (i < length s \<and> s ! i \<in> set ''0123456789'')"

definition digitVal :: "char \<Rightarrow> int" where
  "digitVal c = int (of_char c) - 48"

text \<open>
  \<^verbatim>\<open>nextStdChunk\<close>: the literal text before the first layout element, the element, and
  the rest of the layout; \<open>stdEnd\<close> when no element is left.
\<close>

fun nextStdChunk :: "string \<Rightarrow> string \<times> std \<times> string" where
  "nextStdChunk [] = ([], stdEnd, [])"
| "nextStdChunk (c # cs) =
     (if take 4 (c # cs) = ''2006'' then ([], stdLongYear, drop 3 cs)
      else if take 2 (c # cs) = ''01'' then ([], stdZeroMonth, drop 1 cs)
      else if take 2 (c # cs) = ''02'' then ([], stdZeroDay, drop 1 cs)
      else if take 2 (c # cs) = ''04'' then ([], stdZeroMinute, drop 1 cs)
      else if take 2 (c # cs) = ''05'' then ([], stdZeroSecond, drop 1 cs)
      else if take 2 (c # cs) = ''15'' then ([], stdHour, drop 1 cs)
      else if take 6 (c # cs) = ''-07:00'' then ([], stdNumColonTZ, drop 5 cs)
      else if take 6 (c # cs) = ''Z07:00'' then ([], stdISO8601ColonTZ, drop 5 cs)
      else if (c = CHR ''.'' \<or> c = CHR '','') \<and> take 1 cs = ''9''
              \<and> \<not> isDigit (dropWhile (\<lambda>d. d = CHR ''9'') cs) 0
        then ([], stdFracSecond9 (length (takeWhile (\<lambda>d. d = CHR ''9'') cs)) c,
              dropWhile (\<lambda>d. d = CHR ''9'') cs)
      else (case nextStdChunk cs of (prefix, s, suffix) \<Rightarrow> (c # prefix, s, suffix)))"




text \<open>
  \<^verbatim>\<open>skip\<close> matches the literal text of the layout against the value: a space of the
  layout matches any run of spaces, also an empty one at the end of the value.
\<close>

definition cutspace :: "string \<Rightarrow> string" where
  "cutspace s = dropWhile (\<lambda>c. c = CHR '' '') s"

function skip :: "string \<Rightarrow> string \<Rightarrow> string option" where
  "skip val [] = Some val"
| "skip val (p # ps) =
     (if p = CHR '' '' then
        (if val \<noteq> [] \<and> hd val \<noteq> CHR '' '' then None
         else skip (cutspace val) (cutspace (p # ps)))
      else if val = [] \<or> hd val \<noteq> p then None
      else skip (tl val) ps)"
  by pat_completeness auto
termination
  by (relation "measure (\<lambda>(val, prefix). length prefix)")
     (auto simp: cutspace_def intro: le_imp_less_Suc length_dropWhile_le)

text \<open>
  \<^verbatim>\<open>getnum\<close> reads one or two digits; with \<open>fixed\<close> it wants exactly two.
  \<^verbatim>\<open>atoi\<close> wants digits only (its callers here never pass a sign).
\<close>

fun getnum :: "string \<Rightarrow> bool \<Rightarrow> (int \<times> string) option" where
  "getnum s fixed =
     (if \<not> isDigit s 0 then None
      else if \<not> isDigit s 1 then
        (if fixed then None else Some (digitVal (s ! 0), drop 1 s))
      else Some (digitVal (s ! 0) * 10 + digitVal (s ! 1), drop 2 s))"

fun leadingInt :: "string \<Rightarrow> int \<Rightarrow> int \<times> string" where
  "leadingInt [] x = (x, [])"
| "leadingInt (c # cs) x =
     (if c \<in> set ''0123456789'' then leadingInt cs (x * 10 + digitVal c) else (x, c # cs))"

definition atoi :: "string \<Rightarrow> int option" where
  "atoi s = (case leadingInt s 0 of (q, rem) \<Rightarrow> if rem \<noteq> [] then None else Some q)"

text \<open>
  \<^verbatim>\<open>parseNanoseconds(value, nbytes)\<close> reads the separator and at most nine digits out
  of the first \<open>nbytes\<close> bytes, and scales them to nanoseconds.
\<close>

definition commaOrPeriod :: "char \<Rightarrow> bool" where
  "commaOrPeriod c = (c = CHR ''.'' \<or> c = CHR '','')"

definition parseNanoseconds :: "string \<Rightarrow> nat \<Rightarrow> int option" where
  "parseNanoseconds val nbytes =
     (if \<not> commaOrPeriod (val ! 0) then None
      else (let nbytes' = (if nbytes > 10 then 10 else nbytes);
                val' = (if nbytes > 10 then take 10 val else val)
            in (case atoi (drop 1 (take nbytes' val')) of
                  None \<Rightarrow> None
                | Some ns \<Rightarrow> Some (ns * 10 ^ (10 - nbytes')))))"

definition isLeap :: "int \<Rightarrow> bool" where
  "isLeap year = (year mod 4 = 0 \<and> (year mod 100 \<noteq> 0 \<or> year mod 400 = 0))"

definition daysIn :: "int \<Rightarrow> int \<Rightarrow> int" where
  "daysIn m year =
     (if m = 2 then (if isLeap year then 29 else 28)
      else if m = 4 \<or> m = 6 \<or> m = 9 \<or> m = 11 then 30 else 31)"

text \<open>
  The variables of \<^verbatim>\<open>parse\<close>. As in the library, month and day start at \<open>- 1\<close>, and
  a zone offset of \<open>- 1\<close> means that the value gave none.
\<close>

record fields =
  f_year :: int
  f_month :: int
  f_day :: int
  f_hour :: int
  f_min :: int
  f_sec :: int
  f_nsec :: int
  f_z :: "Location option"
  f_zoneOffset :: int

text \<open>The index of the first byte from index \<open>n\<close> on that is not a digit.\<close>

definition digitsEnd :: "string \<Rightarrow> nat \<Rightarrow> nat" where
  "digitsEnd val n = n + length (takeWhile (\<lambda>c. c \<in> set ''0123456789'') (drop n val))"

text \<open>A zone offset \<^verbatim>\<open>+hh:mm\<close> or \<^verbatim>\<open>-hh:mm\<close>, in seconds.\<close>

definition parseNumColonTZ :: "string \<Rightarrow> fields \<Rightarrow> (string \<times> fields) option" where
  "parseNumColonTZ val f =
     (if length val < 6 then None
      else if val ! 3 \<noteq> CHR '':'' then None
      else (case getnum (take 2 (drop 1 val)) True of
              None \<Rightarrow> None
            | Some (hr, _) \<Rightarrow>
                (case getnum (take 2 (drop 4 val)) True of
                   None \<Rightarrow> None
                 | Some (mm, _) \<Rightarrow>
                     if hr > 24 \<or> mm > 60 then None
                     else if val ! 0 = CHR ''+'' then
                       Some (drop 6 val, f\<lparr>f_zoneOffset := (hr * 60 + mm) * 60\<rparr>)
                     else if val ! 0 = CHR ''-'' then
                       Some (drop 6 val, f\<lparr>f_zoneOffset := - ((hr * 60 + mm) * 60)\<rparr>)
                     else None)))"

text \<open>
  One layout element read from the value: the rest of the value and the variables, or
  \<open>None\<close> for an error. \<open>layout\<close> is the layout after the element: seconds followed in
  the value by a fraction read it themselves when the layout has no fraction next.
\<close>

fun isFracSecond9 :: "std \<Rightarrow> bool" where
  "isFracSecond9 (stdFracSecond9 digits sep) = True"
| "isFracSecond9 s = False"

definition parseStd :: "std \<Rightarrow> string \<Rightarrow> string \<Rightarrow> fields \<Rightarrow> (string \<times> fields) option" where
  "parseStd s layout val f =
     (case s of
        stdLongYear \<Rightarrow>
          (if length val < 4 \<or> \<not> isDigit val 0 then None
           else (case atoi (take 4 val) of
                   None \<Rightarrow> None
                 | Some y \<Rightarrow> Some (drop 4 val, f\<lparr>f_year := y\<rparr>)))
      | stdZeroMonth \<Rightarrow>
          (case getnum val True of
             None \<Rightarrow> None
           | Some (m, val') \<Rightarrow> if m \<le> 0 \<or> 12 < m then None else Some (val', f\<lparr>f_month := m\<rparr>))
      | stdZeroDay \<Rightarrow>
          (case getnum val True of
             None \<Rightarrow> None
           | Some (d, val') \<Rightarrow> Some (val', f\<lparr>f_day := d\<rparr>))
      | stdHour \<Rightarrow>
          (case getnum val False of
             None \<Rightarrow> None
           | Some (h, val') \<Rightarrow> if h < 0 \<or> 24 \<le> h then None else Some (val', f\<lparr>f_hour := h\<rparr>))
      | stdZeroMinute \<Rightarrow>
          (case getnum val True of
             None \<Rightarrow> None
           | Some (m, val') \<Rightarrow> if m < 0 \<or> 60 \<le> m then None else Some (val', f\<lparr>f_min := m\<rparr>))
      | stdZeroSecond \<Rightarrow>
          (case getnum val True of
             None \<Rightarrow> None
           | Some (sc, val') \<Rightarrow>
               if sc < 0 \<or> 60 \<le> sc then None
               else if length val' \<ge> 2 \<and> commaOrPeriod (val' ! 0) \<and> isDigit val' 1 then
                 (if isFracSecond9 (fst (snd (nextStdChunk layout))) then Some (val', f\<lparr>f_sec := sc\<rparr>)
                  else (let n = digitsEnd val' 2
                        in (case parseNanoseconds val' n of
                              None \<Rightarrow> None
                            | Some ns \<Rightarrow> Some (drop n val', f\<lparr>f_sec := sc, f_nsec := ns\<rparr>))))
               else Some (val', f\<lparr>f_sec := sc\<rparr>))
      | stdFracSecond9 digits sep \<Rightarrow>
          (if length val < 2 \<or> \<not> commaOrPeriod (val ! 0) \<or> \<not> isDigit val 1 then Some (val, f)
           else (let n = digitsEnd val 1
                 in (case parseNanoseconds val n of
                       None \<Rightarrow> None
                     | Some ns \<Rightarrow> Some (drop n val, f\<lparr>f_nsec := ns\<rparr>))))
      | stdNumColonTZ \<Rightarrow> parseNumColonTZ val f
      | stdISO8601ColonTZ \<Rightarrow>
          (if length val \<ge> 1 \<and> val ! 0 = CHR ''Z'' then Some (drop 1 val, f\<lparr>f_z := Some UTC\<rparr>)
           else parseNumColonTZ val f)
      | stdEnd \<Rightarrow> None)"

text \<open>The loop of \<^verbatim>\<open>parse\<close>: at the end of the layout the value must be used up.\<close>

function parseLoop :: "string \<Rightarrow> string \<Rightarrow> fields \<Rightarrow> fields option" where
  "parseLoop layout val f =
     (case nextStdChunk layout of
        (prefix, s, suffix) \<Rightarrow>
          (case skip val prefix of
             None \<Rightarrow> None
           | Some val1 \<Rightarrow>
               if s = stdEnd then (if val1 \<noteq> [] then None else Some f)
               else (case parseStd s suffix val1 f of
                       None \<Rightarrow> None
                     | Some (val2, f') \<Rightarrow> parseLoop suffix val2 f')))"
  by pat_completeness auto
termination
proof -
  have shorter: "length suffix < length layout"
    if "nextStdChunk layout = (prefix, s, suffix)" and "s \<noteq> stdEnd"
    for layout prefix s suffix
    using that
  proof (induction layout arbitrary: prefix)
    case Nil
    then show ?case by simp
  next
    case (Cons c cs)
    have dw: "length (dropWhile (\<lambda>d. d = CHR ''9'') cs) \<le> length cs"
      by (rule length_dropWhile_le)
    show ?case
      using Cons.prems Cons.IH dw
      by (auto split: if_splits prod.splits simp del: take_Suc_Cons)
  qed
  show ?thesis
    by (relation "measure (\<lambda>(layout, val, f). length layout)")
       (auto dest: shorter [OF sym])
qed

declare parseLoop.simps [simp del]

text \<open>
  After the loop the day of the month is checked, and the time is built: in the
  location \<open>Z\<close> stands for; at the offset that the value gave (in the location asked
  for when that has this offset, in a zone without name otherwise); in the location
  asked for when the value gave no zone.
\<close>

definition zoneOffsetOf :: "Location \<Rightarrow> int" where
  "zoneOffsetOf loc = (case loc of UTC \<Rightarrow> 0 | FixedZone name off \<Rightarrow> off)"

definition ParseInLocation :: "string \<Rightarrow> string \<Rightarrow> Location \<Rightarrow> Time option" where
  "ParseInLocation layout val loc =
     (case parseLoop layout val
             \<lparr>f_year = 0, f_month = - 1, f_day = - 1, f_hour = 0, f_min = 0, f_sec = 0,
              f_nsec = 0, f_z = None, f_zoneOffset = - 1\<rparr> of
        None \<Rightarrow> None
      | Some f \<Rightarrow>
          (let month = (if f_month f < 0 then 1 else f_month f);
               day = (if f_day f < 0 then 1 else f_day f)
           in if day < 1 \<or> day > daysIn month (f_year f) then None
              else Some \<lparr>Year = f_year f, Month = month, Day = day, Hour = f_hour f,
                         Minute = f_min f, Second = f_sec f, Nanosecond = f_nsec f,
                         Loc = (if f_zoneOffset f \<noteq> - 1 \<and> f_zoneOffset f \<noteq> zoneOffsetOf loc
                                then FixedZone [] (f_zoneOffset f) else loc)\<rparr>))"


text \<open>
  Formatting. \<^verbatim>\<open>appendInt\<close> pads with zeros to the width; a fraction of nines keeps
  as many digits as the layout has nines, drops trailing zeros, and is left out with
  its separator when nothing remains; \<^verbatim>\<open>Z07:00\<close> prints \<^verbatim>\<open>Z\<close> at offset zero. Go's
  integer division rounds towards zero.
\<close>

definition appendInt :: "int \<Rightarrow> nat \<Rightarrow> string" where
  "appendInt x width =
     (let digits = utoa (nat \<bar>x\<bar>)
      in (if x < 0 then ''-'' else []) @ replicate (width - length digits) (CHR ''0'') @ digits)"

definition trimZeros :: "string \<Rightarrow> string" where
  "trimZeros s = rev (dropWhile (\<lambda>c. c = CHR ''0'') (rev s))"

definition appendNano :: "int \<Rightarrow> nat \<Rightarrow> char \<Rightarrow> string" where
  "appendNano nanosec digits sep =
     (if digits = 0 \<or> nanosec = 0 then []
      else (let frac = trimZeros (take digits (appendInt nanosec 9))
            in if frac = [] then [] else sep # frac))"

definition appendZone :: "bool \<Rightarrow> int \<Rightarrow> string" where
  "appendZone isoZ offset =
     (if offset = 0 \<and> isoZ then ''Z''
      else (let zone = (if offset < 0 then - ((- offset) div 60) else offset div 60)
            in if zone < 0 then ''-'' @ appendInt ((- zone) div 60) 2 @ '':'' @ appendInt ((- zone) mod 60) 2
               else ''+'' @ appendInt (zone div 60) 2 @ '':'' @ appendInt (zone mod 60) 2))"

definition formatStd :: "std \<Rightarrow> Time \<Rightarrow> string" where
  "formatStd s t =
     (case s of
        stdLongYear \<Rightarrow> appendInt (Year t) 4
      | stdZeroMonth \<Rightarrow> appendInt (Month t) 2
      | stdZeroDay \<Rightarrow> appendInt (Day t) 2
      | stdHour \<Rightarrow> appendInt (Hour t) 2
      | stdZeroMinute \<Rightarrow> appendInt (Minute t) 2
      | stdZeroSecond \<Rightarrow> appendInt (Second t) 2
      | stdFracSecond9 digits sep \<Rightarrow> appendNano (Nanosecond t) digits sep
      | stdNumColonTZ \<Rightarrow> appendZone False (zoneOffsetOf (Loc t))
      | stdISO8601ColonTZ \<Rightarrow> appendZone True (zoneOffsetOf (Loc t))
      | stdEnd \<Rightarrow> [])"

function Format :: "Time \<Rightarrow> string \<Rightarrow> string" where
  "Format t layout =
     (case nextStdChunk layout of
        (prefix, s, suffix) \<Rightarrow>
          if s = stdEnd then prefix else prefix @ formatStd s t @ Format t suffix)"
  by pat_completeness auto
termination
proof -
  have shorter: "length suffix < length layout"
    if "nextStdChunk layout = (prefix, s, suffix)" and "s \<noteq> stdEnd"
    for layout prefix s suffix
    using that
  proof (induction layout arbitrary: prefix)
    case Nil
    then show ?case by simp
  next
    case (Cons c cs)
    have dw: "length (dropWhile (\<lambda>d. d = CHR ''9'') cs) \<le> length cs"
      by (rule length_dropWhile_le)
    show ?case
      using Cons.prems Cons.IH dw
      by (auto split: if_splits prod.splits simp del: take_Suc_Cons)
  qed
  show ?thesis
    by (relation "measure (\<lambda>(t, layout). length layout)")
       (auto dest: shorter [OF sym])
qed

declare Format.simps [simp del]

section \<open>Statements: binding and execution\<close>

text \<open>
  \<^verbatim>\<open>bindSingle\<close> binds by position when the argument has no name and by name
  otherwise; a native error is turned into a Go error by \<^verbatim>\<open>goErr\<close>.
\<close>

definition bindSingle :: "native \<Rightarrow> statement \<Rightarrow> NamedValue \<Rightarrow> (Value \<Rightarrow> libsql_value_t) \<Rightarrow> world
    \<Rightarrow> error option \<times> world" where
  "bindSingle N stmt arg toValue w =
     (if Name arg = [] then
        (let w1 = w @ [libsql_statement_bind_value (stmt_inner stmt) (toValue (Value arg))]
         in if ret_err N w1 \<noteq> None then
              (case goErr N (ret_err N w1) w1 of (e, w2) \<Rightarrow> (Some e, w2))
            else (None, w1))
      else
        (let w1 = w @ [libsql_statement_bind_named (stmt_inner stmt) (Name arg) (toValue (Value arg))]
         in if ret_err N w1 \<noteq> None then
              (case goErr N (ret_err N w1) w1 of (e, w2) \<Rightarrow> (Some e, w2))
            else (None, w1)))"

text \<open>
  The body of the loop of \<^verbatim>\<open>Bind\<close>: the type switch on the value of one argument.
  Each case hands \<^verbatim>\<open>bindSingle\<close> the closure that builds the native value; a value of
  no listed type matches no case, and nothing happens. \<^verbatim>\<open>bindSingle\<close> applies the
  closure to \<^verbatim>\<open>arg.Value\<close>, so the type assertion in the closure gives back the value
  that the case matched. The buffers that the code allocates with \<^verbatim>\<open>C.CString\<close> and
  \<^verbatim>\<open>C.CBytes\<close> hold the bytes of the Go value.
\<close>

definition bindArg :: "native \<Rightarrow> stdlib \<Rightarrow> statement \<Rightarrow> NamedValue \<Rightarrow> world \<Rightarrow> error option \<times> world" where
  "bindArg N L stmt arg w =
     (case Value arg of
        VBool b \<Rightarrow>
          bindSingle N stmt arg (\<lambda>a. libsql_integer (if b then 1 else 0)) w
      | VInt64 i \<Rightarrow>
          bindSingle N stmt arg (\<lambda>a. libsql_integer i) w
      | VFloat64 f \<Rightarrow>
          bindSingle N stmt arg (\<lambda>a. libsql_real f) w
      | VTime t \<Rightarrow>
          (let valueString = time_Format L t RFC3339Nano
           in bindSingle N stmt arg (\<lambda>a. libsql_text valueString (length valueString)) w)
      | VString valueString \<Rightarrow>
          bindSingle N stmt arg (\<lambda>a. libsql_text valueString (length valueString)) w
      | VBytes valueBytes \<Rightarrow>
          bindSingle N stmt arg (\<lambda>a. libsql_blob valueBytes (length valueBytes)) w
      | VNil \<Rightarrow>
          bindSingle N stmt arg (\<lambda>a. libsql_null) w
      | VOther ty \<Rightarrow> (None, w))"

text \<open>\<^verbatim>\<open>Bind\<close>: the loop over the arguments, which returns at the first error.\<close>

fun Bind :: "native \<Rightarrow> stdlib \<Rightarrow> statement \<Rightarrow> NamedValue list \<Rightarrow> world \<Rightarrow> error option \<times> world" where
  "Bind N L stmt [] w = (None, w)"
| "Bind N L stmt (arg # args) w =
     (case bindArg N L stmt arg w of
        (e, w') \<Rightarrow> if e \<noteq> None then (e, w') else Bind N L stmt args w')"

record result =
  rowsAffected :: "64 word"

definition ExecContext :: "native \<Rightarrow> stdlib \<Rightarrow> statement \<Rightarrow> NamedValue list \<Rightarrow> world
    \<Rightarrow> (error + result) \<times> world" where
  "ExecContext N L stmt args w =
     (case Bind N L stmt args w of
        (e, w1) \<Rightarrow>
          (case e of
             Some e' \<Rightarrow> (Inl e', w1)
           | None \<Rightarrow>
               (let w2 = w1 @ [libsql_statement_execute (stmt_inner stmt)]
                in if ret_err N w2 \<noteq> None then
                     (case goErr N (ret_err N w2) w2 of (e'', w3) \<Rightarrow> (Inl e'', w3))
                   else (Inr \<lparr>rowsAffected = ret_rows_changed N w2\<rparr>, w2))))"

text \<open>\<^verbatim>\<open>Exec\<close> numbers the values from 0 and gives them no name.\<close>

definition Exec :: "native \<Rightarrow> stdlib \<Rightarrow> statement \<Rightarrow> Value list \<Rightarrow> world \<Rightarrow> (error + result) \<times> world" where
  "Exec N L stmt args w =
     ExecContext N L stmt
       (map (\<lambda>i. \<lparr>Name = [], Ordinal = int i, Value = args ! i\<rparr>) [0..<length args]) w"

text \<open>An \<^verbatim>\<open>int64\<close> is a 64-bit word, read as two's complement: \<open>- 1\<close> is the word of all ones.\<close>

definition LastInsertId :: "result \<Rightarrow> 64 word \<times> error option" where
  "LastInsertId res = (- 1, None)"

definition RowsAffected :: "result \<Rightarrow> 64 word \<times> error option" where
  "RowsAffected res = (rowsAffected res, None)"

section \<open>Rows: decoding a native value\<close>







section \<open>Connectors\<close>

record ConnectorOptions =
  url :: string
  path :: string
  authToken :: string
  encryptionKey :: string
  syncInterval :: "64 word"
  webpki :: bool
  notReadYourWrites :: bool

text \<open>The zero value \<^verbatim>\<open>ConnectorOptions{}\<close>.\<close>

definition ConnectorOptions_zero :: ConnectorOptions where
  "ConnectorOptions_zero =
     \<lparr>url = [], path = [], authToken = [], encryptionKey = [], syncInterval = 0,
      webpki = False, notReadYourWrites = False\<rparr>"

text \<open>\<^verbatim>\<open>cString\<close>: the nil pointer for the empty string, a C copy otherwise.\<close>

definition cString :: "string \<Rightarrow> string option" where
  "cString s = (if s = [] then None else Some s)"

text \<open>
  \<^verbatim>\<open>NewConnector\<close> makes one native call, with the path, the url and the auth token
  of the options; the encryption key is always passed as nil.
\<close>

definition NewConnector :: "native \<Rightarrow> ConnectorOptions \<Rightarrow> world \<Rightarrow> (error + Connector) \<times> world" where
  "NewConnector N opt w =
     (let w1 = w @ [libsql_database_init
                      \<lparr>desc_path = cString (path opt),
                       desc_url = cString (url opt),
                       desc_auth_token = cString (authToken opt),
                       desc_encryption_key = None,
                       desc_not_read_your_writes = notReadYourWrites opt,
                       desc_webpki = webpki opt,
                       desc_sync_interval = syncInterval opt\<rparr>];
          db = ret_handle N w1
      in if err db \<noteq> None then
           (case goErr N (err db) w1 of (e, w2) \<Rightarrow> (Inl e, w2))
         else (Inr \<lparr>db_inner = db\<rparr>, w1))"

text \<open>\<^verbatim>\<open>Driver.OpenConnector\<close>: the connection string decides the options.\<close>

definition OpenConnector :: "native \<Rightarrow> stdlib \<Rightarrow> string \<Rightarrow> world \<Rightarrow> (error + Connector) \<times> world" where
  "OpenConnector N L dbAddress w =
     (if strings_TrimSpace L dbAddress = '':memory:'' then NewConnector N ConnectorOptions_zero w
      else
        (case url_Parse L dbAddress of
           Inl e \<Rightarrow> (Inl e, w)
         | Inr u \<Rightarrow>
             if Scheme u = ''file'' then
               NewConnector N (ConnectorOptions_zero\<lparr>path := Opaque u\<rparr>) w
             else if Scheme u = ''http'' \<or> Scheme u = ''https'' \<or> Scheme u = ''libsql'' then
               (let authToken' = Values_Get (URL_Query L u) ''authToken'';
                    path' = Values_Get (URL_Query L u) ''path''
                in NewConnector N
                     (ConnectorOptions_zero
                        \<lparr>path := path', url := ''libsql://'' @ URL_Hostname L u,
                         authToken := authToken'\<rparr>) w)
             else
               (Inl (errorString
                  (''unsupported URL scheme: '' @ Scheme u @ [CHR 0x0A]
                   @ ''This driver supports only URLs that start with libsql://, file:, https:// or http://'')),
                w)))"

section \<open>Options of the embedded replica connector\<close>

text \<open>
  The draft that the options fill. A field of pointer type is \<open>None\<close> while it is nil.
  A \<^verbatim>\<open>time.Duration\<close> is an \<^verbatim>\<open>int64\<close> of nanoseconds.
\<close>

record config =
  config_authToken :: "string option"
  config_readYourWrites :: "bool option"
  config_encryptionKey :: "string option"
  config_syncInterval :: "64 word option"

text \<open>
  An \<^verbatim>\<open>Option\<close> is one of the closures that the four exported constructors return, with
  the argument the constructor was given. (The method \<^verbatim>\<open>apply\<close> is not exported, so no
  other package can add a kind of option.)
\<close>

datatype Option =
    WithAuthToken string
  | WithReadYourWrites bool
  | WithEncryption string
  | WithSyncInterval "64 word"

text \<open>The method \<^verbatim>\<open>apply\<close>: the error returned, and the draft as the closure leaves it.\<close>

fun Option_apply :: "Option \<Rightarrow> config \<Rightarrow> error option \<times> config" where
  "Option_apply (WithAuthToken token) c =
     (if config_authToken c \<noteq> None then (Some (errorString ''authToken already set''), c)
      else if token = [] then (Some (errorString ''authToken must not be empty''), c)
      else (None, c\<lparr>config_authToken := Some token\<rparr>))"
| "Option_apply (WithReadYourWrites readYourWrites) c =
     (if config_readYourWrites c \<noteq> None then (Some (errorString ''read your writes already set''), c)
      else (None, c\<lparr>config_readYourWrites := Some readYourWrites\<rparr>))"
| "Option_apply (WithEncryption key) c =
     (if config_encryptionKey c \<noteq> None then (Some (errorString ''encryption key already set''), c)
      else if key = [] then (Some (errorString ''encryption key must not be empty''), c)
      else (None, c\<lparr>config_encryptionKey := Some key\<rparr>))"
| "Option_apply (WithSyncInterval interval) c =
     (if config_syncInterval c \<noteq> None then (Some (errorString ''sync interval already set''), c)
      else (None, c\<lparr>config_syncInterval := Some interval\<rparr>))"

text \<open>
  The loop of \<^verbatim>\<open>NewEmbeddedReplicaConnector\<close> over the options, with the draft and the
  list \<^verbatim>\<open>errs\<close> that it appends to.
\<close>

fun applyOptions :: "Option list \<Rightarrow> config \<Rightarrow> error list \<Rightarrow> config \<times> error list" where
  "applyOptions [] c errs = (c, errs)"
| "applyOptions (opt # opts) c errs =
     (case Option_apply opt c of
        (Some e, c') \<Rightarrow> applyOptions opts c' (errs @ [e])
      | (None, c') \<Rightarrow> applyOptions opts c' errs)"

text \<open>
  \<^verbatim>\<open>Duration.Milliseconds\<close> divides the nanoseconds by a million, rounding towards zero;
  the conversion to \<^verbatim>\<open>uint64\<close> keeps the bits.
\<close>

definition Milliseconds :: "64 word \<Rightarrow> 64 word" where
  "Milliseconds d =
     word_of_int (if sint d < 0 then - ((- sint d) div 1000000) else sint d div 1000000)"

text \<open>The zero value of \<^verbatim>\<open>config\<close>.\<close>

definition config_zero :: config where
  "config_zero =
     \<lparr>config_authToken = None, config_readYourWrites = None, config_encryptionKey = None,
      config_syncInterval = None\<rparr>"

definition NewEmbeddedReplicaConnector :: "native \<Rightarrow> string \<Rightarrow> string \<Rightarrow> Option list \<Rightarrow> world
    \<Rightarrow> (error + Connector) \<times> world" where
  "NewEmbeddedReplicaConnector N dbPath primaryUrl opts w =
     (case applyOptions opts config_zero [] of
        (c, errs) \<Rightarrow>
          if length errs > 0 then (Inl (joinError errs), w)
          else
            NewConnector N
              \<lparr>url = primaryUrl,
               path = dbPath,
               authToken = (case config_authToken c of None \<Rightarrow> [] | Some a \<Rightarrow> a),
               encryptionKey = (case config_encryptionKey c of None \<Rightarrow> [] | Some k \<Rightarrow> k),
               syncInterval =
                 Milliseconds (case config_syncInterval c of None \<Rightarrow> 0 | Some i \<Rightarrow> i),
               webpki = False,
               notReadYourWrites =
                 (\<not> (case config_readYourWrites c of None \<Rightarrow> True | Some r \<Rightarrow> r))\<rparr>
              w)"

section \<open>What the specification says of binding and of options\<close>

text \<open>
  The native value that the specification gives for each kind of argument: a boolean
  is the integer 0 or 1, an int64 an integer, a float64 a real, a timestamp the text of
  its RFC 3339 format with nanoseconds, a string a text, a byte sequence a blob, nil
  null; a value of any other kind has none.
\<close>

fun spec_native_value :: "stdlib \<Rightarrow> Value \<Rightarrow> libsql_value_t option" where
  "spec_native_value L (VBool b) = Some (libsql_integer (if b then 1 else 0))"
| "spec_native_value L (VInt64 i) = Some (libsql_integer i)"
| "spec_native_value L (VFloat64 f) = Some (libsql_real f)"
| "spec_native_value L (VTime t) =
     Some (libsql_text (time_Format L t RFC3339Nano) (length (time_Format L t RFC3339Nano)))"
| "spec_native_value L (VString str) = Some (libsql_text str (length str))"
| "spec_native_value L (VBytes bs) = Some (libsql_blob bs (length bs))"
| "spec_native_value L VNil = Some libsql_null"
| "spec_native_value L (VOther ty) = None"

text \<open>
  The native calls that the specification gives for a list of arguments: none for an
  argument of an unrecognised kind, and for any other argument one call, by name when
  the argument carries a name and by position otherwise.
\<close>

fun spec_bind_calls :: "stdlib \<Rightarrow> statement \<Rightarrow> NamedValue list \<Rightarrow> native_call list" where
  "spec_bind_calls L stmt [] = []"
| "spec_bind_calls L stmt (arg # args) =
     (case spec_native_value L (Value arg) of
        None \<Rightarrow> spec_bind_calls L stmt args
      | Some v \<Rightarrow>
          (if Name arg = [] then libsql_statement_bind_value (stmt_inner stmt) v
           else libsql_statement_bind_named (stmt_inner stmt) (Name arg) v)
          # spec_bind_calls L stmt args)"

text \<open>
  The failures that the specification collects: every option is applied, in order, to
  the draft as all the options before it left it, whether they failed or not, and each
  failure is kept.
\<close>

fun spec_failures :: "Option list \<Rightarrow> config \<Rightarrow> error list" where
  "spec_failures [] c = []"
| "spec_failures (opt # opts) c =
     (case fst (Option_apply opt c) of None \<Rightarrow> [] | Some e \<Rightarrow> [e])
     @ spec_failures opts (snd (Option_apply opt c))"

text \<open>The options of a list that set the auth token.\<close>

fun isWithAuthToken :: "Option \<Rightarrow> bool" where
  "isWithAuthToken (WithAuthToken token) = True"
| "isWithAuthToken opt = False"

fun hasEmptyToken :: "Option \<Rightarrow> bool" where
  "hasEmptyToken (WithAuthToken token) = (token = [])"
| "hasEmptyToken opt = False"

text \<open>The same for the other three kinds of option.\<close>

fun isWithReadYourWrites :: "Option \<Rightarrow> bool" where
  "isWithReadYourWrites (WithReadYourWrites readYourWrites) = True"
| "isWithReadYourWrites opt = False"

fun isWithEncryption :: "Option \<Rightarrow> bool" where
  "isWithEncryption (WithEncryption key) = True"
| "isWithEncryption opt = False"

fun hasEmptyKey :: "Option \<Rightarrow> bool" where
  "hasEmptyKey (WithEncryption key) = (key = [])"
| "hasEmptyKey opt = False"

fun isWithSyncInterval :: "Option \<Rightarrow> bool" where
  "isWithSyncInterval (WithSyncInterval interval) = True"
| "isWithSyncInterval opt = False"

section \<open>Example values\<close>

text \<open>
  Two behaviours of the library, for the concrete runs below: one that answers every
  call with success (a fresh handle, no error, one row changed), one that answers every
  call with an error.
\<close>

definition native_ok :: native where
  "native_ok =
     \<lparr>ret_handle = (\<lambda>h. \<lparr>err = None, inner = Some (length h)\<rparr>), ret_err = (\<lambda>h. None),
      ret_rows_changed = (\<lambda>h. 1), ret_message = (\<lambda>h. [])\<rparr>"

definition native_failing :: native where
  "native_failing =
     \<lparr>ret_handle = (\<lambda>h. \<lparr>err = Some 1, inner = None\<rparr>), ret_err = (\<lambda>h. Some 1),
      ret_rows_changed = (\<lambda>h. 0), ret_message = (\<lambda>h. ''database is locked'')\<rparr>"

text \<open>A connection outside a transaction, and one inside.\<close>

definition conn_idle :: connection where
  "conn_idle =
     \<lparr>conn_inner = \<lparr>err = None, inner = Some 7\<rparr>, tx = \<lparr>err = None, inner = None\<rparr>,
      in_transaction = False\<rparr>"

definition conn_in_tx :: connection where
  "conn_in_tx =
     \<lparr>conn_inner = \<lparr>err = None, inner = Some 7\<rparr>, tx = \<lparr>err = None, inner = Some 9\<rparr>,
      in_transaction = True\<rparr>"

text \<open>
  A standard library for the concrete runs. The functions of package time are the
  model above. \<open>TrimSpace_ascii\<close> trims the six ASCII white space characters, which
  is what \<^verbatim>\<open>strings.TrimSpace\<close> does on a string of ASCII characters. The answers of
  \<^verbatim>\<open>url.Parse\<close> and \<^verbatim>\<open>URL.Query\<close> are tabulated for four addresses, with the values
  Go gives; every other address is outside the sample, and answered with an error.
  \<open>Hostname_sample\<close> cuts the port off, which is what \<^verbatim>\<open>URL.Hostname\<close> does on a host
  without brackets.
\<close>

definition asciiSpace :: "char \<Rightarrow> bool" where
  "asciiSpace c = (c \<in> set [CHR 0x09, CHR 0x0A, CHR 0x0B, CHR 0x0C, CHR 0x0D, CHR '' ''])"

definition TrimSpace_ascii :: "string \<Rightarrow> string" where
  "TrimSpace_ascii s = rev (dropWhile asciiSpace (rev (dropWhile asciiSpace s)))"

definition url_Parse_sample :: "string \<Rightarrow> error + URL" where
  "url_Parse_sample s =
     (if s = ''file:test.db'' then
        Inr \<lparr>Scheme = ''file'', Opaque = ''test.db'', Host = [], RawQuery = []\<rparr>
      else if s = ''libsql://db.example.com?authToken=tok&path=replica.db'' then
        Inr \<lparr>Scheme = ''libsql'', Opaque = [], Host = ''db.example.com'',
             RawQuery = ''authToken=tok&path=replica.db''\<rparr>
      else if s = ''https://db.example.com:8080?authToken=tok'' then
        Inr \<lparr>Scheme = ''https'', Opaque = [], Host = ''db.example.com:8080'',
             RawQuery = ''authToken=tok''\<rparr>
      else if s = ''ftp://host'' then
        Inr \<lparr>Scheme = ''ftp'', Opaque = [], Host = ''host'', RawQuery = []\<rparr>
      else Inl (errorString ''address outside the sample''))"

definition URL_Query_sample :: "URL \<Rightarrow> Values" where
  "URL_Query_sample u =
     (if RawQuery u = ''authToken=tok&path=replica.db'' then
        (\<lambda>key. if key = ''authToken'' then [''tok'']
               else if key = ''path'' then [''replica.db''] else [])
      else if RawQuery u = ''authToken=tok'' then
        (\<lambda>key. if key = ''authToken'' then [''tok''] else [])
      else (\<lambda>key. []))"

definition Hostname_sample :: "URL \<Rightarrow> string" where
  "Hostname_sample u = takeWhile (\<lambda>c. c \<noteq> CHR '':'') (Host u)"

definition stdlib_sample :: stdlib where
  "stdlib_sample =
     \<lparr>time_Format = Format, time_ParseInLocation = ParseInLocation,
      strings_TrimSpace = TrimSpace_ascii, url_Parse = url_Parse_sample,
      URL_Hostname = Hostname_sample, URL_Query = URL_Query_sample\<rparr>"

text \<open>A statement, and a moment in time.\<close>

definition stmt_sample :: statement where
  "stmt_sample = \<lparr>stmt_inner = \<lparr>err = None, inner = Some 3\<rparr>\<rparr>"

definition time_sample :: Time where
  "time_sample =
     \<lparr>Year = 2023, Month = 1, Day = 2, Hour = 3, Minute = 4, Second = 5, Nanosecond = 0,
      Loc = UTC\<rparr>"

section \<open>Close\<close>

lemma closes_fixed:
  assumes "close h w = (None, h, w)"
  shows "closes close n h w = (replicate n None, h, w)"
  using assms by (induction n) simp_all

lemma Connector_Close_again:
  "Connector_Close c w = (e, c', w') \<Longrightarrow> Connector_Close c' w' = (None, c', w')"
  by (auto simp: Connector_Close_def split: if_splits)

lemma statement_Close_again:
  "statement_Close s w = (e, s', w') \<Longrightarrow> statement_Close s' w' = (None, s', w')"
  by (auto simp: statement_Close_def split: if_splits)

text \<open>
  C6. On a Connector (the Database handle) and on a statement, any sequence of Close
  calls returns no error at all, and leaves the wrapper and the native calls as the first
  Close of the sequence left them: the first Close makes the deinit call once if the
  pointer is not nil, sets the pointer to nil, and no later Close makes a native call.
\<close>

theorem Close_Connector_statement_idempotent:
  "closes Connector_Close (Suc n) c w =
     (replicate (Suc n) None,
      c\<lparr>db_inner := (db_inner c)\<lparr>inner := None\<rparr>\<rparr>,
      (if inner (db_inner c) = None then w else w @ [libsql_database_deinit (db_inner c)]))
   \<and> closes statement_Close (Suc n) s w =
     (replicate (Suc n) None,
      s\<lparr>stmt_inner := (stmt_inner s)\<lparr>inner := None\<rparr>\<rparr>,
      (if inner (stmt_inner s) = None then w else w @ [libsql_statement_deinit (stmt_inner s)]))"
proof -
  obtain c' w' where c: "Connector_Close c w = (None, c', w')"
    by (cases "inner (db_inner c) = None") (simp_all add: Connector_Close_def)
  have c1: "c' = c\<lparr>db_inner := (db_inner c)\<lparr>inner := None\<rparr>\<rparr>"
    and c2: "w' = (if inner (db_inner c) = None then w else w @ [libsql_database_deinit (db_inner c)])"
    using c by (auto simp: Connector_Close_def split: if_splits)
  have "closes Connector_Close n c' w' = (replicate n None, c', w')"
    by (rule closes_fixed) (rule Connector_Close_again [OF c])
  then have left: "closes Connector_Close (Suc n) c w = (replicate (Suc n) None, c', w')"
    using c by simp
  obtain s' v' where s: "statement_Close s w = (None, s', v')"
    by (cases "inner (stmt_inner s) = None") (simp_all add: statement_Close_def)
  have s1: "s' = s\<lparr>stmt_inner := (stmt_inner s)\<lparr>inner := None\<rparr>\<rparr>"
    and s2: "v' = (if inner (stmt_inner s) = None then w else w @ [libsql_statement_deinit (stmt_inner s)])"
    using s by (auto simp: statement_Close_def split: if_splits)
  have "closes statement_Close n s' v' = (replicate n None, s', v')"
    by (rule closes_fixed) (rule statement_Close_again [OF s])
  then have right: "closes statement_Close (Suc n) s w = (replicate (Suc n) None, s', v')"
    using s by simp
  show ?thesis
    using left right c1 c2 s1 s2 by simp
qed

text \<open>
  C1. Close is not idempotent for every handle kind: \<^verbatim>\<open>connection.Close\<close> and
  \<^verbatim>\<open>Rows.Close\<close> have no nil check, so two Close calls on a connection or on a Rows
  make the native deinit call twice, on the same native handle.
\<close>

theorem Close_twice_connection_Rows_deinit_twice:
  "closes connection_Close 2 conn w =
     ([None, None], conn,
      w @ [libsql_connection_deinit (conn_inner conn), libsql_connection_deinit (conn_inner conn)])
   \<and> closes Rows_Close 2 rows w =
     ([None, None], rows,
      w @ [libsql_rows_deinit (rows_inner rows), libsql_rows_deinit (rows_inner rows)])"
  by (simp add: numeral_2_eq_2 connection_Close_def Rows_Close_def)

section \<open>Transactions\<close>

text \<open>
  C2. \<^verbatim>\<open>BeginTx\<close> sets the in-transaction flag before the native call that creates the
  transaction, and does not reset it when that call fails: with the default options the
  flag is true after every call, and on a connection whose flag is false, with a library
  that answers the creation of the transaction with an error, \<^verbatim>\<open>BeginTx\<close> returns the
  error and leaves the flag true.
\<close>

theorem BeginTx_native_error_leaves_flag_set:
  "in_transaction (fst (snd (BeginTx N conn \<lparr>Isolation = 0, ReadOnly = False\<rparr> w))) = True
   \<and> in_transaction conn_idle = False
   \<and> BeginTx native_failing conn_idle \<lparr>Isolation = 0, ReadOnly = False\<rparr> []
     = (Some (errorString ''database is locked''),
        conn_idle\<lparr>tx := \<lparr>err = Some 1, inner = None\<rparr>, in_transaction := True\<rparr>,
        [libsql_connection_transaction (conn_inner conn_idle),
         libsql_error_message (Some 1), libsql_error_deinit (Some 1)])"
  by (simp add: BeginTx_def goErr_def Let_def native_failing_def conn_idle_def split: prod.split)

text \<open>
  C8. A \<^verbatim>\<open>BeginTx\<close> that asks for a read-only transaction, or for an isolation level
  other than the default, returns a configuration error, makes no native call and leaves
  the connection as it was.
\<close>

theorem BeginTx_rejects_before_native:
  assumes "ReadOnly opts \<or> Isolation opts \<noteq> 0"
  shows "BeginTx N conn opts w =
     (Some (if ReadOnly opts then errorString ''read only transactions are not supported''
            else errorString (''isolation level '' @ itoa (Isolation opts) @ '' is not supported'')),
      conn, w)"
  using assms by (auto simp: BeginTx_def)

theorem BeginTx_rejects_before_native_witness:
  "BeginTx native_ok conn_idle \<lparr>Isolation = 0, ReadOnly = True\<rparr> [] =
     (Some (errorString ''read only transactions are not supported''), conn_idle, [])
   \<and> BeginTx native_ok conn_idle \<lparr>Isolation = 6, ReadOnly = False\<rparr> [] =
     (Some (errorString ''isolation level 6 is not supported''), conn_idle, [])"
  using BeginTx_rejects_before_native [of "\<lparr>Isolation = 0, ReadOnly = True\<rparr>" native_ok conn_idle "[]"]
    BeginTx_rejects_before_native [of "\<lparr>Isolation = 6, ReadOnly = False\<rparr>" native_ok conn_idle "[]"]
  by (simp add: itoa_def utoa.simps)

text \<open>
  C7. On a connection whose in-transaction flag is false, \<^verbatim>\<open>Commit\<close> and
  \<^verbatim>\<open>Rollback\<close> return the error "Not inside a transaction", make no native call and
  leave the connection unchanged. When the flag is true they return no error, make the
  native commit (rollback) call on the transaction handle, reset the handle to the zero
  struct and set the flag to false.
\<close>

theorem Commit_Rollback_flag:
  "(\<not> in_transaction conn \<longrightarrow>
      Commit conn w = (Some (errorString ''Not inside a transaction''), conn, w)
    \<and> Rollback conn w = (Some (errorString ''Not inside a transaction''), conn, w))
   \<and> (in_transaction conn \<longrightarrow>
      Commit conn w =
        (None, conn\<lparr>tx := \<lparr>err = None, inner = None\<rparr>, in_transaction := False\<rparr>,
         w @ [libsql_transaction_commit (tx conn)])
    \<and> Rollback conn w =
        (None, conn\<lparr>tx := \<lparr>err = None, inner = None\<rparr>, in_transaction := False\<rparr>,
         w @ [libsql_transaction_rollback (tx conn)]))"
  by (simp add: Commit_def Rollback_def)

theorem Commit_Rollback_flag_witness:
  "\<not> in_transaction conn_idle
   \<and> Commit conn_idle [] = (Some (errorString ''Not inside a transaction''), conn_idle, [])
   \<and> Rollback conn_idle [] = (Some (errorString ''Not inside a transaction''), conn_idle, [])
   \<and> in_transaction conn_in_tx
   \<and> Commit conn_in_tx [] = (None, conn_idle, [libsql_transaction_commit (tx conn_in_tx)])
   \<and> Rollback conn_in_tx [] = (None, conn_idle, [libsql_transaction_rollback (tx conn_in_tx)])"
  using Commit_Rollback_flag [of conn_idle "[]"] Commit_Rollback_flag [of conn_in_tx "[]"]
  by (simp add: conn_idle_def conn_in_tx_def)

section \<open>Binding and execution\<close>

lemma bindSingle_ok:
  assumes "\<forall>h. ret_err N h = None"
  shows "bindSingle N stmt arg toValue w =
     (None, w @ [if Name arg = [] then libsql_statement_bind_value (stmt_inner stmt) (toValue (Value arg))
                 else libsql_statement_bind_named (stmt_inner stmt) (Name arg) (toValue (Value arg))])"
  using assms by (simp add: bindSingle_def Let_def)

lemma bindArg_ok:
  assumes "\<forall>h. ret_err N h = None"
  shows "bindArg N L stmt arg w = (None, w @ spec_bind_calls L stmt [arg])"
  by (cases "Value arg") (simp_all add: bindArg_def bindSingle_ok [OF assms] Let_def)

lemma spec_bind_calls_Cons:
  "spec_bind_calls L stmt (arg # args) = spec_bind_calls L stmt [arg] @ spec_bind_calls L stmt args"
  by (cases "spec_native_value L (Value arg)") simp_all

text \<open>
  C9. When the library reports no bind error, \<^verbatim>\<open>Bind\<close> returns no error and makes
  exactly the native calls of the specification, in the order of the arguments: a
  boolean binds as the integer 0 or 1, an int64 as an integer, a float64 as a real, a
  timestamp as the text of its format \<^verbatim>\<open>RFC3339Nano\<close>, a string as text, a byte
  sequence as a blob, nil as null; an argument of any other kind makes no call and no
  error; the call is by name when the argument has a name and by position otherwise.
\<close>

theorem Bind_dispatches_on_kind:
  assumes "\<forall>h. ret_err N h = None"
  shows "Bind N L stmt args w = (None, w @ spec_bind_calls L stmt args)"
proof (induction args arbitrary: w)
  case Nil
  show ?case by simp
next
  case (Cons arg args)
  have "Bind N L stmt (arg # args) w = Bind N L stmt args (w @ spec_bind_calls L stmt [arg])"
    by (simp add: bindArg_ok [OF assms] del: spec_bind_calls.simps)
  also have "\<dots> = (None, (w @ spec_bind_calls L stmt [arg]) @ spec_bind_calls L stmt args)"
    by (rule Cons.IH)
  also have "\<dots> = (None, w @ spec_bind_calls L stmt (arg # args))"
    by (simp only: spec_bind_calls_Cons [of L stmt arg args] append_assoc)
  finally show ?case .
qed

lemma Format_time_sample: "Format time_sample RFC3339Nano = ''2023-01-02T03:04:05Z''"
  by code_simp

theorem Bind_dispatches_on_kind_witness:
  "(\<forall>h. ret_err native_ok h = None)
   \<and> Bind native_ok stdlib_sample stmt_sample
       [\<lparr>Name = [], Ordinal = 1, Value = VBool True\<rparr>,
        \<lparr>Name = [], Ordinal = 2, Value = VBool False\<rparr>,
        \<lparr>Name = ''id'', Ordinal = 3, Value = VInt64 7\<rparr>,
        \<lparr>Name = [], Ordinal = 4, Value = VFloat64 0x3FF8000000000000\<rparr>,
        \<lparr>Name = [], Ordinal = 5, Value = VTime time_sample\<rparr>,
        \<lparr>Name = ''name'', Ordinal = 6, Value = VString ''seven''\<rparr>,
        \<lparr>Name = [], Ordinal = 7, Value = VBytes [7]\<rparr>,
        \<lparr>Name = [], Ordinal = 8, Value = VOther ''int''\<rparr>,
        \<lparr>Name = [], Ordinal = 9, Value = VNil\<rparr>] []
     = (None,
        [libsql_statement_bind_value (stmt_inner stmt_sample) (libsql_integer 1),
         libsql_statement_bind_value (stmt_inner stmt_sample) (libsql_integer 0),
         libsql_statement_bind_named (stmt_inner stmt_sample) ''id'' (libsql_integer 7),
         libsql_statement_bind_value (stmt_inner stmt_sample) (libsql_real 0x3FF8000000000000),
         libsql_statement_bind_value (stmt_inner stmt_sample) (libsql_text ''2023-01-02T03:04:05Z'' 20),
         libsql_statement_bind_named (stmt_inner stmt_sample) ''name'' (libsql_text ''seven'' 5),
         libsql_statement_bind_value (stmt_inner stmt_sample) (libsql_blob [7] 1),
         libsql_statement_bind_value (stmt_inner stmt_sample) libsql_null])"
proof -
  have ok: "\<forall>h. ret_err native_ok h = None"
    by (simp add: native_ok_def)
  have fmt: "time_Format stdlib_sample time_sample RFC3339Nano = ''2023-01-02T03:04:05Z''"
    by (simp add: stdlib_sample_def Format_time_sample)
  have calls: "spec_bind_calls stdlib_sample stmt_sample
       [\<lparr>Name = [], Ordinal = 1, Value = VBool True\<rparr>,
        \<lparr>Name = [], Ordinal = 2, Value = VBool False\<rparr>,
        \<lparr>Name = ''id'', Ordinal = 3, Value = VInt64 7\<rparr>,
        \<lparr>Name = [], Ordinal = 4, Value = VFloat64 0x3FF8000000000000\<rparr>,
        \<lparr>Name = [], Ordinal = 5, Value = VTime time_sample\<rparr>,
        \<lparr>Name = ''name'', Ordinal = 6, Value = VString ''seven''\<rparr>,
        \<lparr>Name = [], Ordinal = 7, Value = VBytes [7]\<rparr>,
        \<lparr>Name = [], Ordinal = 8, Value = VOther ''int''\<rparr>,
        \<lparr>Name = [], Ordinal = 9, Value = VNil\<rparr>]
     = [libsql_statement_bind_value (stmt_inner stmt_sample) (libsql_integer 1),
         libsql_statement_bind_value (stmt_inner stmt_sample) (libsql_integer 0),
         libsql_statement_bind_named (stmt_inner stmt_sample) ''id'' (libsql_integer 7),
         libsql_statement_bind_value (stmt_inner stmt_sample) (libsql_real 0x3FF8000000000000),
         libsql_statement_bind_value (stmt_inner stmt_sample) (libsql_text ''2023-01-02T03:04:05Z'' 20),
         libsql_statement_bind_named (stmt_inner stmt_sample) ''name'' (libsql_text ''seven'' 5),
         libsql_statement_bind_value (stmt_inner stmt_sample) (libsql_blob [7] 1),
         libsql_statement_bind_value (stmt_inner stmt_sample) libsql_null]"
    by (simp add: fmt)
  show ?thesis
    using ok
    by (simp only: Bind_dispatches_on_kind [OF ok] calls append_Nil simp_thms)
qed

text \<open>
  C10. For every result that \<^verbatim>\<open>ExecContext\<close> (and so \<^verbatim>\<open>Exec\<close>) returns,
  \<^verbatim>\<open>LastInsertId\<close> is \<open>- 1\<close> with a nil error, whatever was executed, and
  \<^verbatim>\<open>RowsAffected\<close> is the row count that the native execute call answered.
\<close>

theorem LastInsertId_always_minus_one:
  assumes "ExecContext N L stmt args w = (Inr res, w')"
  shows "LastInsertId res = (- 1, None) \<and> sint (fst (LastInsertId res)) = - 1
    \<and> RowsAffected res = (ret_rows_changed N w', None)
    \<and> last w' = libsql_statement_execute (stmt_inner stmt)"
  using assms
  by (auto simp: ExecContext_def LastInsertId_def RowsAffected_def Let_def
      split: prod.splits option.splits if_splits)

theorem LastInsertId_always_minus_one_witness:
  "ExecContext native_ok stdlib_sample stmt_sample [\<lparr>Name = [], Ordinal = 1, Value = VInt64 7\<rparr>] []
     = (Inr \<lparr>rowsAffected = 1\<rparr>,
        [libsql_statement_bind_value (stmt_inner stmt_sample) (libsql_integer 7),
         libsql_statement_execute (stmt_inner stmt_sample)])
   \<and> LastInsertId \<lparr>rowsAffected = 1\<rparr> = (- 1, None)
   \<and> RowsAffected \<lparr>rowsAffected = 1\<rparr> = (1, None)"
proof -
  have run: "ExecContext native_ok stdlib_sample stmt_sample
        [\<lparr>Name = [], Ordinal = 1, Value = VInt64 7\<rparr>] []
     = (Inr \<lparr>rowsAffected = 1\<rparr>,
        [libsql_statement_bind_value (stmt_inner stmt_sample) (libsql_integer 7),
         libsql_statement_execute (stmt_inner stmt_sample)])"
    by (simp add: ExecContext_def bindArg_def bindSingle_def native_ok_def Let_def)
  show ?thesis
    using LastInsertId_always_minus_one [OF run] run
    by (simp add: native_ok_def)
qed

section \<open>Options\<close>

lemma applyOptions_spec:
  "applyOptions opts c errs =
     (foldl (\<lambda>c opt. snd (Option_apply opt c)) c opts, errs @ spec_failures opts c)"
proof (induction opts arbitrary: c errs)
  case Nil
  show ?case by simp
next
  case (Cons opt opts)
  obtain e c' where step: "Option_apply opt c = (e, c')"
    by (cases "Option_apply opt c")
  show ?case
    by (cases e) (simp_all add: step Cons.IH)
qed

lemma Option_apply_keeps_token:
  "config_authToken c \<noteq> None \<Longrightarrow> config_authToken (snd (Option_apply opt c)) \<noteq> None"
  by (cases opt) simp_all

lemma count_already_set_when_set:
  assumes "config_authToken c \<noteq> None"
  shows "count_list (spec_failures opts c) (errorString ''authToken already set'')
    = length (filter isWithAuthToken opts)"
  using assms
proof (induction opts arbitrary: c)
  case Nil
  show ?case by simp
next
  case (Cons opt opts)
  have rest: "count_list (spec_failures opts (snd (Option_apply opt c)))
      (errorString ''authToken already set'') = length (filter isWithAuthToken opts)"
    by (rule Cons.IH) (rule Option_apply_keeps_token [OF Cons.prems])
  show ?case
    using Cons.prems rest by (cases opt) simp_all
qed

lemma count_already_set_when_unset:
  assumes "config_authToken c = None" and "\<forall>opt \<in> set opts. \<not> hasEmptyToken opt"
  shows "count_list (spec_failures opts c) (errorString ''authToken already set'')
    = length (filter isWithAuthToken opts) - 1"
  using assms
proof (induction opts arbitrary: c)
  case Nil
  show ?case by simp
next
  case (Cons opt opts)
  show ?case
  proof (cases opt)
    case (WithAuthToken token)
    have "token \<noteq> []"
      using Cons.prems(2) WithAuthToken by simp
    then have "count_list (spec_failures (opt # opts) c) (errorString ''authToken already set'')
        = count_list (spec_failures opts (c\<lparr>config_authToken := Some token\<rparr>))
            (errorString ''authToken already set'')"
      using Cons.prems(1) WithAuthToken by simp
    also have "\<dots> = length (filter isWithAuthToken opts)"
      by (rule count_already_set_when_set) simp
    finally show ?thesis
      using WithAuthToken by simp
  next
    case (WithReadYourWrites r)
    have "count_list (spec_failures opts (snd (Option_apply opt c)))
        (errorString ''authToken already set'') = length (filter isWithAuthToken opts) - 1"
      using Cons.prems WithReadYourWrites by (intro Cons.IH) simp_all
    then show ?thesis
      using WithReadYourWrites by simp
  next
    case (WithEncryption key)
    have "count_list (spec_failures opts (snd (Option_apply opt c)))
        (errorString ''authToken already set'') = length (filter isWithAuthToken opts) - 1"
      using Cons.prems WithEncryption by (intro Cons.IH) simp_all
    then show ?thesis
      using WithEncryption by simp
  next
    case (WithSyncInterval i)
    have "count_list (spec_failures opts (snd (Option_apply opt c)))
        (errorString ''authToken already set'') = length (filter isWithAuthToken opts) - 1"
      using Cons.prems WithSyncInterval by (intro Cons.IH) simp_all
    then show ?thesis
      using WithSyncInterval by simp
  qed
qed

lemma Option_apply_keeps_readYourWrites:
  "config_readYourWrites c \<noteq> None \<Longrightarrow> config_readYourWrites (snd (Option_apply opt c)) \<noteq> None"
  by (cases opt) simp_all

lemma Option_apply_keeps_key:
  "config_encryptionKey c \<noteq> None \<Longrightarrow> config_encryptionKey (snd (Option_apply opt c)) \<noteq> None"
  by (cases opt) simp_all

lemma Option_apply_keeps_interval:
  "config_syncInterval c \<noteq> None \<Longrightarrow> config_syncInterval (snd (Option_apply opt c)) \<noteq> None"
  by (cases opt) simp_all

lemma count_read_your_writes_when_set:
  assumes "config_readYourWrites c \<noteq> None"
  shows "count_list (spec_failures opts c) (errorString ''read your writes already set'')
    = length (filter isWithReadYourWrites opts)"
  using assms
proof (induction opts arbitrary: c)
  case Nil
  show ?case by simp
next
  case (Cons opt opts)
  have rest: "count_list (spec_failures opts (snd (Option_apply opt c)))
      (errorString ''read your writes already set'') = length (filter isWithReadYourWrites opts)"
    by (rule Cons.IH) (rule Option_apply_keeps_readYourWrites [OF Cons.prems])
  show ?case
    using Cons.prems rest by (cases opt) simp_all
qed

lemma count_read_your_writes_when_unset:
  assumes "config_readYourWrites c = None"
  shows "count_list (spec_failures opts c) (errorString ''read your writes already set'')
    = length (filter isWithReadYourWrites opts) - 1"
  using assms
proof (induction opts arbitrary: c)
  case Nil
  show ?case by simp
next
  case (Cons opt opts)
  show ?case
  proof (cases "isWithReadYourWrites opt")
    case True
    then obtain r where opt: "opt = WithReadYourWrites r"
      by (cases opt) simp_all
    have "count_list (spec_failures opts (c\<lparr>config_readYourWrites := Some r\<rparr>))
        (errorString ''read your writes already set'') = length (filter isWithReadYourWrites opts)"
      by (rule count_read_your_writes_when_set) simp
    then show ?thesis
      using Cons.prems opt by simp
  next
    case False
    then have same: "config_readYourWrites (snd (Option_apply opt c)) = None"
      using Cons.prems by (cases opt) simp_all
    have "count_list (spec_failures opts (snd (Option_apply opt c)))
        (errorString ''read your writes already set'') = length (filter isWithReadYourWrites opts) - 1"
      by (rule Cons.IH [OF same])
    then show ?thesis
      using False by (cases opt) simp_all
  qed
qed

lemma count_sync_interval_when_set:
  assumes "config_syncInterval c \<noteq> None"
  shows "count_list (spec_failures opts c) (errorString ''sync interval already set'')
    = length (filter isWithSyncInterval opts)"
  using assms
proof (induction opts arbitrary: c)
  case Nil
  show ?case by simp
next
  case (Cons opt opts)
  have rest: "count_list (spec_failures opts (snd (Option_apply opt c)))
      (errorString ''sync interval already set'') = length (filter isWithSyncInterval opts)"
    by (rule Cons.IH) (rule Option_apply_keeps_interval [OF Cons.prems])
  show ?case
    using Cons.prems rest by (cases opt) simp_all
qed

lemma count_sync_interval_when_unset:
  assumes "config_syncInterval c = None"
  shows "count_list (spec_failures opts c) (errorString ''sync interval already set'')
    = length (filter isWithSyncInterval opts) - 1"
  using assms
proof (induction opts arbitrary: c)
  case Nil
  show ?case by simp
next
  case (Cons opt opts)
  show ?case
  proof (cases "isWithSyncInterval opt")
    case True
    then obtain i where opt: "opt = WithSyncInterval i"
      by (cases opt) simp_all
    have "count_list (spec_failures opts (c\<lparr>config_syncInterval := Some i\<rparr>))
        (errorString ''sync interval already set'') = length (filter isWithSyncInterval opts)"
      by (rule count_sync_interval_when_set) simp
    then show ?thesis
      using Cons.prems opt by simp
  next
    case False
    then have same: "config_syncInterval (snd (Option_apply opt c)) = None"
      using Cons.prems by (cases opt) simp_all
    have "count_list (spec_failures opts (snd (Option_apply opt c)))
        (errorString ''sync interval already set'') = length (filter isWithSyncInterval opts) - 1"
      by (rule Cons.IH [OF same])
    then show ?thesis
      using False by (cases opt) simp_all
  qed
qed

lemma count_encryption_when_set:
  assumes "config_encryptionKey c \<noteq> None"
  shows "count_list (spec_failures opts c) (errorString ''encryption key already set'')
    = length (filter isWithEncryption opts)"
  using assms
proof (induction opts arbitrary: c)
  case Nil
  show ?case by simp
next
  case (Cons opt opts)
  have rest: "count_list (spec_failures opts (snd (Option_apply opt c)))
      (errorString ''encryption key already set'') = length (filter isWithEncryption opts)"
    by (rule Cons.IH) (rule Option_apply_keeps_key [OF Cons.prems])
  show ?case
    using Cons.prems rest by (cases opt) simp_all
qed

lemma count_encryption_when_unset:
  assumes "config_encryptionKey c = None" and "\<forall>opt \<in> set opts. \<not> hasEmptyKey opt"
  shows "count_list (spec_failures opts c) (errorString ''encryption key already set'')
    = length (filter isWithEncryption opts) - 1"
  using assms
proof (induction opts arbitrary: c)
  case Nil
  show ?case by simp
next
  case (Cons opt opts)
  have tail: "\<forall>opt \<in> set opts. \<not> hasEmptyKey opt"
    using Cons.prems(2) by simp
  show ?case
  proof (cases "isWithEncryption opt")
    case True
    then obtain key where opt: "opt = WithEncryption key"
      by (cases opt) simp_all
    have key: "key \<noteq> []"
      using Cons.prems(2) opt by simp
    have "count_list (spec_failures opts (c\<lparr>config_encryptionKey := Some key\<rparr>))
        (errorString ''encryption key already set'') = length (filter isWithEncryption opts)"
      by (rule count_encryption_when_set) simp
    then show ?thesis
      using Cons.prems(1) opt key by simp
  next
    case False
    then have same: "config_encryptionKey (snd (Option_apply opt c)) = None"
      using Cons.prems(1) by (cases opt) simp_all
    have "count_list (spec_failures opts (snd (Option_apply opt c)))
        (errorString ''encryption key already set'') = length (filter isWithEncryption opts) - 1"
      by (rule Cons.IH [OF same tail])
    then show ?thesis
      using False by (cases opt) simp_all
  qed
qed

text \<open>
  C4. The loop of \<^verbatim>\<open>NewEmbeddedReplicaConnector\<close> applies every option, each to the
  draft as all the options before it left it, failed or not, and collects every failure
  in order. When there is at least one failure the constructor makes no native call and
  returns no Connector but the join of all the failures. For each of the four kinds of
  option the join holds the "already set" message of the kind once for each option of
  the kind after the first (for the auth token and the encryption key, which must not
  be empty, when no option of the kind is given an empty string); so an option of any
  kind that succeeds, given twice, yields the message of its kind once.
\<close>

theorem NewEmbeddedReplicaConnector_joins_every_failure:
  "applyOptions opts c errs =
     (foldl (\<lambda>c opt. snd (Option_apply opt c)) c opts, errs @ spec_failures opts c)
   \<and> (spec_failures opts config_zero \<noteq> [] \<longrightarrow>
        NewEmbeddedReplicaConnector N dbPath primaryUrl opts w =
          (Inl (joinError (spec_failures opts config_zero)), w))
   \<and> ((\<forall>opt \<in> set opts. \<not> hasEmptyToken opt) \<longrightarrow>
        count_list (spec_failures opts config_zero) (errorString ''authToken already set'')
          = length (filter isWithAuthToken opts) - 1)
   \<and> (token \<noteq> [] \<longrightarrow>
        NewEmbeddedReplicaConnector N dbPath primaryUrl [WithAuthToken token, WithAuthToken token] w =
          (Inl (joinError [errorString ''authToken already set'']), w))
   \<and> count_list (spec_failures opts config_zero) (errorString ''read your writes already set'')
        = length (filter isWithReadYourWrites opts) - 1
   \<and> NewEmbeddedReplicaConnector N dbPath primaryUrl
        [WithReadYourWrites ra, WithReadYourWrites rb] w =
        (Inl (joinError [errorString ''read your writes already set'']), w)
   \<and> ((\<forall>opt \<in> set opts. \<not> hasEmptyKey opt) \<longrightarrow>
        count_list (spec_failures opts config_zero) (errorString ''encryption key already set'')
          = length (filter isWithEncryption opts) - 1)
   \<and> (key \<noteq> [] \<longrightarrow>
        NewEmbeddedReplicaConnector N dbPath primaryUrl [WithEncryption key, WithEncryption key] w =
          (Inl (joinError [errorString ''encryption key already set'']), w))
   \<and> count_list (spec_failures opts config_zero) (errorString ''sync interval already set'')
        = length (filter isWithSyncInterval opts) - 1
   \<and> NewEmbeddedReplicaConnector N dbPath primaryUrl
        [WithSyncInterval ia, WithSyncInterval ib] w =
        (Inl (joinError [errorString ''sync interval already set'']), w)"
proof (intro conjI impI)
  show "applyOptions opts c errs =
     (foldl (\<lambda>c opt. snd (Option_apply opt c)) c opts, errs @ spec_failures opts c)"
    by (rule applyOptions_spec)
next
  assume "spec_failures opts config_zero \<noteq> []"
  then show "NewEmbeddedReplicaConnector N dbPath primaryUrl opts w =
      (Inl (joinError (spec_failures opts config_zero)), w)"
    by (simp add: NewEmbeddedReplicaConnector_def applyOptions_spec)
next
  assume "\<forall>opt \<in> set opts. \<not> hasEmptyToken opt"
  then show "count_list (spec_failures opts config_zero) (errorString ''authToken already set'')
      = length (filter isWithAuthToken opts) - 1"
    by (intro count_already_set_when_unset) (simp_all add: config_zero_def)
next
  assume "token \<noteq> []"
  then show "NewEmbeddedReplicaConnector N dbPath primaryUrl
      [WithAuthToken token, WithAuthToken token] w =
      (Inl (joinError [errorString ''authToken already set'']), w)"
    by (simp add: NewEmbeddedReplicaConnector_def config_zero_def)
next
  show "count_list (spec_failures opts config_zero) (errorString ''read your writes already set'')
      = length (filter isWithReadYourWrites opts) - 1"
    by (rule count_read_your_writes_when_unset) (simp add: config_zero_def)
next
  show "NewEmbeddedReplicaConnector N dbPath primaryUrl
      [WithReadYourWrites ra, WithReadYourWrites rb] w =
      (Inl (joinError [errorString ''read your writes already set'']), w)"
    by (simp add: NewEmbeddedReplicaConnector_def config_zero_def)
next
  assume "\<forall>opt \<in> set opts. \<not> hasEmptyKey opt"
  then show "count_list (spec_failures opts config_zero) (errorString ''encryption key already set'')
      = length (filter isWithEncryption opts) - 1"
    by (intro count_encryption_when_unset) (simp_all add: config_zero_def)
next
  assume "key \<noteq> []"
  then show "NewEmbeddedReplicaConnector N dbPath primaryUrl
      [WithEncryption key, WithEncryption key] w =
      (Inl (joinError [errorString ''encryption key already set'']), w)"
    by (simp add: NewEmbeddedReplicaConnector_def config_zero_def)
next
  show "count_list (spec_failures opts config_zero) (errorString ''sync interval already set'')
      = length (filter isWithSyncInterval opts) - 1"
    by (rule count_sync_interval_when_unset) (simp add: config_zero_def)
next
  show "NewEmbeddedReplicaConnector N dbPath primaryUrl
      [WithSyncInterval ia, WithSyncInterval ib] w =
      (Inl (joinError [errorString ''sync interval already set'']), w)"
    by (simp add: NewEmbeddedReplicaConnector_def config_zero_def)
qed

theorem NewEmbeddedReplicaConnector_joins_every_failure_witness:
  "spec_failures
     [WithAuthToken ''tok'', WithSyncInterval 5, WithAuthToken ''tok'', WithEncryption [],
      WithAuthToken ''other''] config_zero
     = [errorString ''authToken already set'', errorString ''encryption key must not be empty'',
        errorString ''authToken already set'']
   \<and> NewEmbeddedReplicaConnector native_ok ''replica.db'' ''libsql://db.example.com''
       [WithAuthToken ''tok'', WithSyncInterval 5, WithAuthToken ''tok'', WithEncryption [],
        WithAuthToken ''other''] []
     = (Inl (joinError
          [errorString ''authToken already set'', errorString ''encryption key must not be empty'',
           errorString ''authToken already set'']), [])
   \<and> count_list
        (spec_failures
          [WithAuthToken ''tok'', WithSyncInterval 5, WithAuthToken ''tok'', WithEncryption [],
           WithAuthToken ''other''] config_zero)
        (errorString ''authToken already set'') = 2
   \<and> NewEmbeddedReplicaConnector native_ok ''replica.db'' ''libsql://db.example.com''
        [WithAuthToken ''tok'', WithAuthToken ''tok''] []
     = (Inl (joinError [errorString ''authToken already set'']), [])
   \<and> NewEmbeddedReplicaConnector native_ok ''replica.db'' ''libsql://db.example.com''
        [WithSyncInterval 5, WithSyncInterval 6, WithReadYourWrites True,
         WithReadYourWrites False, WithEncryption ''k'', WithEncryption ''k''] []
     = (Inl (joinError
          [errorString ''sync interval already set'', errorString ''read your writes already set'',
           errorString ''encryption key already set'']), [])
   \<and> NewEmbeddedReplicaConnector native_ok ''replica.db'' ''libsql://db.example.com''
        [WithEncryption ''k'', WithEncryption ''k''] []
     = (Inl (joinError [errorString ''encryption key already set'']), [])
   \<and> count_list
        (spec_failures
          [WithSyncInterval 5, WithSyncInterval 6, WithReadYourWrites True,
           WithReadYourWrites False, WithEncryption ''k'', WithEncryption ''k''] config_zero)
        (errorString ''encryption key already set'') = 1"
proof -
  let ?opts = "[WithAuthToken ''tok'', WithSyncInterval 5, WithAuthToken ''tok'', WithEncryption [],
      WithAuthToken ''other'']"
  let ?fails = "[errorString ''authToken already set'', errorString ''encryption key must not be empty'',
        errorString ''authToken already set'']"
  let ?opts2 = "[WithSyncInterval 5, WithSyncInterval 6, WithReadYourWrites True,
         WithReadYourWrites False, WithEncryption ''k'', WithEncryption ''k'']"
  let ?fails2 = "[errorString ''sync interval already set'', errorString ''read your writes already set'',
           errorString ''encryption key already set'']"
  note T = NewEmbeddedReplicaConnector_joins_every_failure
      [where opts = ?opts and c = config_zero and errs = "[]" and N = native_ok
        and dbPath = "''replica.db''" and primaryUrl = "''libsql://db.example.com''"
        and w = "[]" and token = "''tok''" and key = "''k''" and ra = True and rb = False
        and ia = 5 and ib = 6]
  note T2 = NewEmbeddedReplicaConnector_joins_every_failure
      [where opts = ?opts2 and c = config_zero and errs = "[]" and N = native_ok
        and dbPath = "''replica.db''" and primaryUrl = "''libsql://db.example.com''"
        and w = "[]" and token = "''tok''" and key = "''k''" and ra = True and rb = False
        and ia = 5 and ib = 6]
  have fails: "spec_failures ?opts config_zero = ?fails"
    by (simp add: config_zero_def)
  have some: "spec_failures ?opts config_zero \<noteq> []"
    by (simp only: fails) simp
  have fails2: "spec_failures ?opts2 config_zero = ?fails2"
    by (simp add: config_zero_def)
  have some2: "spec_failures ?opts2 config_zero \<noteq> []"
    by (simp only: fails2) simp
  have noempty: "\<forall>opt \<in> set ?opts. \<not> hasEmptyToken opt"
    by simp
  have tok: "''tok'' \<noteq> []" and key: "''k'' \<noteq> []"
    by simp_all
  have run: "NewEmbeddedReplicaConnector native_ok ''replica.db'' ''libsql://db.example.com'' ?opts []
      = (Inl (joinError (spec_failures ?opts config_zero)), [])"
    using T some by blast
  have run2: "NewEmbeddedReplicaConnector native_ok ''replica.db'' ''libsql://db.example.com'' ?opts2 []
      = (Inl (joinError (spec_failures ?opts2 config_zero)), [])"
    using T2 some2 by blast
  have cnt: "count_list (spec_failures ?opts config_zero) (errorString ''authToken already set'')
      = length (filter isWithAuthToken ?opts) - 1"
    using T noempty by blast
  have twice: "NewEmbeddedReplicaConnector native_ok ''replica.db'' ''libsql://db.example.com''
        [WithAuthToken ''tok'', WithAuthToken ''tok''] []
      = (Inl (joinError [errorString ''authToken already set'']), [])"
    using T tok by blast
  have twice_key: "NewEmbeddedReplicaConnector native_ok ''replica.db'' ''libsql://db.example.com''
        [WithEncryption ''k'', WithEncryption ''k''] []
      = (Inl (joinError [errorString ''encryption key already set'']), [])"
    using T key by blast
  have len: "length (filter isWithAuthToken ?opts) - 1 = 2"
    by simp
  have nokey: "\<forall>opt \<in> set ?opts2. \<not> hasEmptyKey opt"
    by simp
  have cnt2: "count_list (spec_failures ?opts2 config_zero) (errorString ''encryption key already set'')
      = length (filter isWithEncryption ?opts2) - 1"
    using T2 nokey by blast
  have len2: "length (filter isWithEncryption ?opts2) - 1 = 1"
    by simp
  show ?thesis
    using fails run cnt twice len run2 fails2 twice_key cnt2 len2 by (simp only: simp_thms)
qed

section \<open>Connection strings\<close>

text \<open>
  C5. \<^verbatim>\<open>OpenConnector\<close> classifies a connection string as follows. When the string
  trims to \<^verbatim>\<open>:memory:\<close>, the connector is made from the zero options: the native
  call gets no path, no url and no auth token. Otherwise, when the string parses as a
  URL: scheme \<^verbatim>\<open>file\<close> makes the connector from the options whose only field is the
  path, the opaque part of the URL; schemes \<^verbatim>\<open>http\<close>, \<^verbatim>\<open>https\<close> and \<^verbatim>\<open>libsql\<close>
  make it from the url \<^verbatim>\<open>libsql://\<close> followed by the host name, and the auth token
  and path of the query parameters \<^verbatim>\<open>authToken\<close> and \<^verbatim>\<open>path\<close>; any other scheme
  gives no connector and no native call, but an error whose message names the scheme.
\<close>

theorem OpenConnector_classifies:
  "(strings_TrimSpace L dbAddress = '':memory:'' \<longrightarrow>
      OpenConnector N L dbAddress w =
        NewConnector N
          \<lparr>url = [], path = [], authToken = [], encryptionKey = [], syncInterval = 0,
           webpki = False, notReadYourWrites = False\<rparr> w
      \<and> (\<exists>rest. snd (OpenConnector N L dbAddress w) =
            w @ libsql_database_init
                  \<lparr>desc_path = None, desc_url = None, desc_auth_token = None,
                   desc_encryption_key = None, desc_not_read_your_writes = False,
                   desc_webpki = False, desc_sync_interval = 0\<rparr> # rest))
   \<and> (strings_TrimSpace L dbAddress \<noteq> '':memory:'' \<and> url_Parse L dbAddress = Inr u \<longrightarrow>
        (Scheme u = ''file'' \<longrightarrow>
           OpenConnector N L dbAddress w =
             NewConnector N
               \<lparr>url = [], path = Opaque u, authToken = [], encryptionKey = [], syncInterval = 0,
                webpki = False, notReadYourWrites = False\<rparr> w)
      \<and> (Scheme u \<in> {''http'', ''https'', ''libsql''} \<longrightarrow>
           OpenConnector N L dbAddress w =
             NewConnector N
               \<lparr>url = ''libsql://'' @ URL_Hostname L u,
                path = Values_Get (URL_Query L u) ''path'',
                authToken = Values_Get (URL_Query L u) ''authToken'',
                encryptionKey = [], syncInterval = 0, webpki = False,
                notReadYourWrites = False\<rparr> w)
      \<and> (Scheme u \<notin> {''file'', ''http'', ''https'', ''libsql''} \<longrightarrow>
           OpenConnector N L dbAddress w =
             (Inl (errorString
                (''unsupported URL scheme: '' @ Scheme u @ [CHR 0x0A]
                 @ ''This driver supports only URLs that start with libsql://, file:, https:// or http://'')),
              w)))"
proof (intro conjI impI)
  assume mem: "strings_TrimSpace L dbAddress = '':memory:''"
  show "OpenConnector N L dbAddress w =
      NewConnector N
        \<lparr>url = [], path = [], authToken = [], encryptionKey = [], syncInterval = 0,
         webpki = False, notReadYourWrites = False\<rparr> w"
    by (simp add: OpenConnector_def mem ConnectorOptions_zero_def)
  then show "\<exists>rest. snd (OpenConnector N L dbAddress w) =
      w @ libsql_database_init
            \<lparr>desc_path = None, desc_url = None, desc_auth_token = None,
             desc_encryption_key = None, desc_not_read_your_writes = False,
             desc_webpki = False, desc_sync_interval = 0\<rparr> # rest"
    by (simp add: NewConnector_def goErr_def cString_def Let_def)
next
  assume h: "strings_TrimSpace L dbAddress \<noteq> '':memory:'' \<and> url_Parse L dbAddress = Inr u"
    and "Scheme u = ''file''"
  then show "OpenConnector N L dbAddress w =
      NewConnector N
        \<lparr>url = [], path = Opaque u, authToken = [], encryptionKey = [], syncInterval = 0,
         webpki = False, notReadYourWrites = False\<rparr> w"
    by (simp add: OpenConnector_def ConnectorOptions_zero_def)
next
  assume h: "strings_TrimSpace L dbAddress \<noteq> '':memory:'' \<and> url_Parse L dbAddress = Inr u"
    and "Scheme u \<in> {''http'', ''https'', ''libsql''}"
  then show "OpenConnector N L dbAddress w =
      NewConnector N
        \<lparr>url = ''libsql://'' @ URL_Hostname L u,
         path = Values_Get (URL_Query L u) ''path'',
         authToken = Values_Get (URL_Query L u) ''authToken'',
         encryptionKey = [], syncInterval = 0, webpki = False,
         notReadYourWrites = False\<rparr> w"
    by (auto simp: OpenConnector_def ConnectorOptions_zero_def Let_def)
next
  assume h: "strings_TrimSpace L dbAddress \<noteq> '':memory:'' \<and> url_Parse L dbAddress = Inr u"
    and "Scheme u \<notin> {''file'', ''http'', ''https'', ''libsql''}"
  then show "OpenConnector N L dbAddress w =
      (Inl (errorString
         (''unsupported URL scheme: '' @ Scheme u @ [CHR 0x0A]
          @ ''This driver supports only URLs that start with libsql://, file:, https:// or http://'')),
       w)"
    by (simp add: OpenConnector_def)
qed

lemma TrimSpace_ascii_samples:
  "TrimSpace_ascii '' :memory: '' = '':memory:''"
  "TrimSpace_ascii ''file:test.db'' = ''file:test.db''"
  "TrimSpace_ascii ''libsql://db.example.com?authToken=tok&path=replica.db''
     = ''libsql://db.example.com?authToken=tok&path=replica.db''"
  "TrimSpace_ascii ''https://db.example.com:8080?authToken=tok''
     = ''https://db.example.com:8080?authToken=tok''"
  "TrimSpace_ascii ''ftp://host'' = ''ftp://host''"
  by (simp_all add: TrimSpace_ascii_def asciiSpace_def)

theorem OpenConnector_classifies_witness:
  "OpenConnector native_ok stdlib_sample '' :memory: '' []
     = (Inr \<lparr>db_inner = \<lparr>err = None, inner = Some 1\<rparr>\<rparr>,
        [libsql_database_init
           \<lparr>desc_path = None, desc_url = None, desc_auth_token = None,
            desc_encryption_key = None, desc_not_read_your_writes = False,
            desc_webpki = False, desc_sync_interval = 0\<rparr>])
   \<and> OpenConnector native_ok stdlib_sample ''file:test.db'' []
     = (Inr \<lparr>db_inner = \<lparr>err = None, inner = Some 1\<rparr>\<rparr>,
        [libsql_database_init
           \<lparr>desc_path = Some ''test.db'', desc_url = None, desc_auth_token = None,
            desc_encryption_key = None, desc_not_read_your_writes = False,
            desc_webpki = False, desc_sync_interval = 0\<rparr>])
   \<and> OpenConnector native_ok stdlib_sample
        ''libsql://db.example.com?authToken=tok&path=replica.db'' []
     = (Inr \<lparr>db_inner = \<lparr>err = None, inner = Some 1\<rparr>\<rparr>,
        [libsql_database_init
           \<lparr>desc_path = Some ''replica.db'', desc_url = Some ''libsql://db.example.com'',
            desc_auth_token = Some ''tok'', desc_encryption_key = None,
            desc_not_read_your_writes = False, desc_webpki = False, desc_sync_interval = 0\<rparr>])
   \<and> OpenConnector native_ok stdlib_sample ''https://db.example.com:8080?authToken=tok'' []
     = (Inr \<lparr>db_inner = \<lparr>err = None, inner = Some 1\<rparr>\<rparr>,
        [libsql_database_init
           \<lparr>desc_path = None, desc_url = Some ''libsql://db.example.com'',
            desc_auth_token = Some ''tok'', desc_encryption_key = None,
            desc_not_read_your_writes = False, desc_webpki = False, desc_sync_interval = 0\<rparr>])
   \<and> OpenConnector native_ok stdlib_sample ''ftp://host'' []
     = (Inl (errorString
          (''unsupported URL scheme: ftp'' @ [CHR 0x0A]
           @ ''This driver supports only URLs that start with libsql://, file:, https:// or http://'')),
        [])"
proof -
  have trim: "strings_TrimSpace stdlib_sample = TrimSpace_ascii"
    and parse: "url_Parse stdlib_sample = url_Parse_sample"
    and host: "URL_Hostname stdlib_sample = Hostname_sample"
    and query: "URL_Query stdlib_sample = URL_Query_sample"
    by (simp_all add: stdlib_sample_def)
  have new: "\<And>opt. NewConnector native_ok opt [] =
      (Inr \<lparr>db_inner = \<lparr>err = None, inner = Some 1\<rparr>\<rparr>,
       [libsql_database_init
          \<lparr>desc_path = cString (path opt), desc_url = cString (url opt),
           desc_auth_token = cString (authToken opt), desc_encryption_key = None,
           desc_not_read_your_writes = notReadYourWrites opt, desc_webpki = webpki opt,
           desc_sync_interval = syncInterval opt\<rparr>])"
    by (simp add: NewConnector_def native_ok_def Let_def)
  have run_memory: "OpenConnector native_ok stdlib_sample '' :memory: '' []
     = (Inr \<lparr>db_inner = \<lparr>err = None, inner = Some 1\<rparr>\<rparr>,
        [libsql_database_init
           \<lparr>desc_path = None, desc_url = None, desc_auth_token = None,
            desc_encryption_key = None, desc_not_read_your_writes = False,
            desc_webpki = False, desc_sync_interval = 0\<rparr>])"
    using OpenConnector_classifies [where L = stdlib_sample and dbAddress = "'' :memory: ''"
        and N = native_ok and w = "[]"]
    by (simp add: trim TrimSpace_ascii_samples new cString_def)
  have run_file: "OpenConnector native_ok stdlib_sample ''file:test.db'' []
     = (Inr \<lparr>db_inner = \<lparr>err = None, inner = Some 1\<rparr>\<rparr>,
        [libsql_database_init
           \<lparr>desc_path = Some ''test.db'', desc_url = None, desc_auth_token = None,
            desc_encryption_key = None, desc_not_read_your_writes = False,
            desc_webpki = False, desc_sync_interval = 0\<rparr>])"
    using OpenConnector_classifies [where L = stdlib_sample and dbAddress = "''file:test.db''"
        and u = "\<lparr>Scheme = ''file'', Opaque = ''test.db'', Host = [], RawQuery = []\<rparr>" and N = native_ok and w = "[]"]
    by (simp add: trim parse TrimSpace_ascii_samples url_Parse_sample_def new cString_def)
  have run_libsql: "OpenConnector native_ok stdlib_sample
        ''libsql://db.example.com?authToken=tok&path=replica.db'' []
     = (Inr \<lparr>db_inner = \<lparr>err = None, inner = Some 1\<rparr>\<rparr>,
        [libsql_database_init
           \<lparr>desc_path = Some ''replica.db'', desc_url = Some ''libsql://db.example.com'',
            desc_auth_token = Some ''tok'', desc_encryption_key = None,
            desc_not_read_your_writes = False, desc_webpki = False, desc_sync_interval = 0\<rparr>])"
    using OpenConnector_classifies [where L = stdlib_sample and dbAddress = "''libsql://db.example.com?authToken=tok&path=replica.db''"
        and u = "\<lparr>Scheme = ''libsql'', Opaque = [], Host = ''db.example.com'',
          RawQuery = ''authToken=tok&path=replica.db''\<rparr>" and N = native_ok and w = "[]"]
    by (simp add: trim parse host query TrimSpace_ascii_samples url_Parse_sample_def
        Hostname_sample_def URL_Query_sample_def Values_Get_def new cString_def)
  have run_https: "OpenConnector native_ok stdlib_sample ''https://db.example.com:8080?authToken=tok'' []
     = (Inr \<lparr>db_inner = \<lparr>err = None, inner = Some 1\<rparr>\<rparr>,
        [libsql_database_init
           \<lparr>desc_path = None, desc_url = Some ''libsql://db.example.com'',
            desc_auth_token = Some ''tok'', desc_encryption_key = None,
            desc_not_read_your_writes = False, desc_webpki = False, desc_sync_interval = 0\<rparr>])"
    using OpenConnector_classifies [where L = stdlib_sample and dbAddress = "''https://db.example.com:8080?authToken=tok''"
        and u = "\<lparr>Scheme = ''https'', Opaque = [], Host = ''db.example.com:8080'',
          RawQuery = ''authToken=tok''\<rparr>" and N = native_ok and w = "[]"]
    by (simp add: trim parse host query TrimSpace_ascii_samples url_Parse_sample_def
        Hostname_sample_def URL_Query_sample_def Values_Get_def new cString_def)
  have run_ftp: "OpenConnector native_ok stdlib_sample ''ftp://host'' []
     = (Inl (errorString
          (''unsupported URL scheme: ftp'' @ [CHR 0x0A]
           @ ''This driver supports only URLs that start with libsql://, file:, https:// or http://'')),
        [])"
    using OpenConnector_classifies [where L = stdlib_sample and dbAddress = "''ftp://host''"
        and u = "\<lparr>Scheme = ''ftp'', Opaque = [], Host = ''host'', RawQuery = []\<rparr>" and N = native_ok and w = "[]"]
    by (simp add: trim parse TrimSpace_ascii_samples url_Parse_sample_def)
  show ?thesis
    using run_memory run_file run_libsql run_https run_ftp by (simp only: simp_thms)
qed

section \<open>Decoding text\<close>





















end
